theory Spec2Isabelle
  imports Main "HOL-Library.Sublist" "HOL-Library.Multiset"
begin

section \<open>The API service (operator/api/main.go)\<close>

subsection \<open>Kubernetes objects and the cluster client\<close>

text \<open>
  An instant (Go's \<open>time.Time\<close>, wrapped by \<open>metav1.Time\<close>) is the number of nanoseconds
  since 0001-01-01T00:00:00Z, so that Go's zero \<open>time.Time\<close> is \<open>0\<close>. Times decoded from
  JSON carry no monotonic clock reading, so comparing and subtracting them only looks at
  that instant.
\<close>

type_synonym Time = int

definition After :: "Time \<Rightarrow> Time \<Rightarrow> bool" where
  "After t u = (u < t)"

text \<open>The fields of \<open>batchv1.Job\<close> and \<open>corev1.Pod\<close> that the two services read.\<close>

record Job =
  Name :: string
  Namespace :: string
  CreationTimestamp :: Time
  StartTime :: "Time option"
  CompletionTime :: "Time option"

record Pod =
  PodName :: string
  PodNamespace :: string

record ListOptions =
  LabelSelector :: string
  Limit :: int
  Continue :: string

text \<open>\<open>batchv1.JobList\<close>: the items of one page and the token of the next page.\<close>

record JobList =
  ListItems :: "Job list"
  ListContinue :: string

text \<open>
  The response envelopes \<open>JobListResponse\<close>, \<open>JobDetailsResponse\<close> and the
  \<open>map[string]string\<close> with the single key \<open>logs\<close>, as handed to \<open>respondJSON\<close>.
\<close>

datatype payload =
  JobListResponse "Job list" string
| JobDetailsResponse Job "Pod list"
| LogsResponse string

text \<open>
  What the handlers reach outside themselves: the four calls on the clientset (an error is
  the text of \<open>err.Error()\<close>), \<open>os.Getenv\<close> (the empty string for an unset variable) and
  the error of \<open>json.Encoder.Encode\<close>, if any. The logs of a pod are a stream: opening it
  can fail, and reading it to the end (\<open>io.ReadAll\<close>) can fail.
\<close>

record api_env =
  Jobs_List :: "string \<Rightarrow> ListOptions \<Rightarrow> string + JobList"
  Jobs_Get :: "string \<Rightarrow> string \<Rightarrow> string + Job"
  Pods_List :: "string \<Rightarrow> ListOptions \<Rightarrow> string + Pod list"
  Pods_GetLogs :: "string \<Rightarrow> string \<Rightarrow> string + (string + string)"
  Getenv :: "string \<Rightarrow> string"
  Encode_error :: "payload \<Rightarrow> string option"

text \<open>The calls a handler made on the clientset, in order.\<close>

datatype kcall =
  JobsList string ListOptions
| JobsGet string string
| PodsList string ListOptions
| PodsGetLogs string string

fun call_namespace :: "kcall \<Rightarrow> string" where
  "call_namespace (JobsList ns opts) = ns"
| "call_namespace (JobsGet ns name) = ns"
| "call_namespace (PodsList ns opts) = ns"
| "call_namespace (PodsGetLogs ns pod) = ns"

subsection \<open>Requests and responses\<close>

text \<open>
  A request as the handlers read it: the method and the parsed query string
  (\<open>r.URL.Query()\<close>), the pairs in the order of the URL. \<open>Values.Get\<close> is the first value
  of the key, or the empty string.
\<close>

record request =
  Method :: string
  Query :: "(string \<times> string) list"

definition MethodGet :: string where
  "MethodGet = ''GET''"

definition Query_Get :: "(string \<times> string) list \<Rightarrow> string \<Rightarrow> string" where
  "Query_Get q k = (case map_of q k of None \<Rightarrow> [] | Some v \<Rightarrow> v)"

datatype 'a body = Plain string | Content 'a

record 'a response =
  status :: nat
  headers :: "(string \<times> string) list"
  body :: "'a body"

definition StatusOK :: nat where "StatusOK = 200"
definition StatusBadRequest :: nat where "StatusBadRequest = 400"
definition StatusNotFound :: nat where "StatusNotFound = 404"
definition StatusMethodNotAllowed :: nat where "StatusMethodNotAllowed = 405"
definition StatusInternalServerError :: nat where "StatusInternalServerError = 500"

text \<open>
  \<open>http.Error\<close>: a plain-text response with the given status, the message and a newline.
\<close>

definition http_Error :: "string \<Rightarrow> nat \<Rightarrow> 'a response" where
  "http_Error msg code =
     \<lparr>status = code,
      headers = [(''Content-Type'', ''text/plain; charset=utf-8''),
                 (''X-Content-Type-Options'', ''nosniff'')],
      body = Plain (msg @ [CHR 0x0A])\<rparr>"

text \<open>
  \<open>respondJSON\<close>: the encoder marshals the whole value before it writes anything, so a
  failing \<open>Encode\<close> leaves the response to \<open>http.Error\<close>; otherwise the first write sends
  status 200 with the indented JSON of the payload.
\<close>

definition respondJSON :: "api_env \<Rightarrow> payload \<Rightarrow> payload response" where
  "respondJSON E data =
     (case Encode_error E data of
        Some err \<Rightarrow> http_Error err StatusInternalServerError
      | None \<Rightarrow>
          \<lparr>status = StatusOK,
           headers = [(''Content-Type'', ''application/json'')],
           body = Content data\<rparr>)"

subsection \<open>The query string of a URL\<close>

text \<open>
  \<open>url.QueryUnescape\<close>: \<open>%\<close> and two hexadecimal digits are one byte, \<open>+\<close> is a space,
  and a \<open>%\<close> followed by anything else is an error.
\<close>

definition ishex :: "char \<Rightarrow> bool" where
  "ishex c = (c \<in> set ''0123456789abcdefABCDEF'')"

definition unhex :: "char \<Rightarrow> nat" where
  "unhex c =
     (let n = of_char c
      in if 48 \<le> n \<and> n \<le> 57 then n - 48
         else if 97 \<le> n \<and> n \<le> 102 then n - 97 + 10
         else if 65 \<le> n \<and> n \<le> 70 then n - 65 + 10
         else 0)"

fun QueryUnescape :: "string \<Rightarrow> string option" where
  "QueryUnescape [] = Some []"
| "QueryUnescape (c # cs) =
     (if c = CHR ''%'' then
        (case cs of
           h1 # h2 # rest \<Rightarrow>
             if ishex h1 \<and> ishex h2
             then map_option ((#) (char_of (unhex h1 * 16 + unhex h2))) (QueryUnescape rest)
             else None
         | _ \<Rightarrow> None)
      else map_option ((#) (if c = CHR ''+'' then CHR '' '' else c)) (QueryUnescape cs))"

text \<open>The pieces of a string between the occurrences of a separator byte.\<close>

fun split_char :: "char \<Rightarrow> string \<Rightarrow> string list" where
  "split_char c [] = [[]]"
| "split_char c (x # xs) =
     (if x = c then [] # split_char c xs
      else (case split_char c xs of
              [] \<Rightarrow> [[x]]
            | w # ws \<Rightarrow> (x # w) # ws))"

text \<open>\<open>strings.Cut\<close> at a separator byte: the text before its first occurrence, and after.\<close>

definition Cut :: "string \<Rightarrow> char \<Rightarrow> string \<times> string" where
  "Cut s c = (takeWhile (\<lambda>x. x \<noteq> c) s, drop 1 (dropWhile (\<lambda>x. x \<noteq> c) s))"

text \<open>
  \<open>url.ParseQuery\<close>, whose error \<open>URL.Query\<close> drops: the pairs between the ampersands, in
  order; a piece that is empty, holds a semicolon or does not unescape is skipped.
\<close>

definition parse_pair :: "string \<Rightarrow> (string \<times> string) option" where
  "parse_pair key =
     (if CHR '';'' \<in> set key \<or> key = [] then None
      else
        case Cut key (CHR ''='') of (k, v) \<Rightarrow>
          (case QueryUnescape k of
             None \<Rightarrow> None
           | Some k' \<Rightarrow>
               (case QueryUnescape v of
                  None \<Rightarrow> None
                | Some v' \<Rightarrow> Some (k', v'))))"

definition ParseQuery :: "string \<Rightarrow> (string \<times> string) list" where
  "ParseQuery query = List.map_filter parse_pair (split_char (CHR ''&'') query)"

text \<open>
  The raw query of a URL as \<open>url.Parse\<close> finds it and \<open>http.Get\<close> sends it: the text
  after the first question mark of what stands before the first \<open>#\<close>.
\<close>

definition RawQuery :: "string \<Rightarrow> string" where
  "RawQuery rawURL = snd (Cut (fst (Cut rawURL (CHR ''#''))) (CHR ''?''))"

subsection \<open>\<open>sort.Slice\<close>\<close>

text \<open>
  \<open>sort.Slice\<close> belongs to Go's library. Its contract is that the slice ends up a
  permutation of itself in which no element is \<open>less\<close> than one before it; equal elements
  may land in any order. The model is the insertion sort the library runs on slices of at
  most twelve elements: element \<open>i\<close> is swapped to the left as long as it is \<open>less\<close> than
  its left neighbour. On longer slices the library sorts by other means and may leave
  equal elements in another order; what is proved of a sorted list of any length below
  (a permutation, in order) does not depend on the order of equal elements.
\<close>

definition sift :: "('a \<Rightarrow> 'a \<Rightarrow> bool) \<Rightarrow> 'a list \<Rightarrow> 'a \<Rightarrow> 'a list" where
  "sift lt ys x =
     rev (dropWhile (lt x) (rev ys)) @ x # rev (takeWhile (lt x) (rev ys))"

definition sort_Slice :: "('a \<Rightarrow> 'a \<Rightarrow> bool) \<Rightarrow> 'a list \<Rightarrow> 'a list" where
  "sort_Slice lt xs = foldl (sift lt) [] xs"

subsection \<open>Handlers\<close>

definition getNamespace :: "api_env \<Rightarrow> string \<Rightarrow> string" where
  "getNamespace E namespace =
     (if namespace = [] then Getenv E ''DEFAULT_NAMESPACE'' else namespace)"

definition listJobs :: "api_env \<Rightarrow> request \<Rightarrow> string \<Rightarrow> payload response \<times> kcall list" where
  "listJobs E r namespace =
     (let opts = \<lparr>LabelSelector = [], Limit = 0, Continue = []\<rparr> in
      case Jobs_List E namespace opts of
        Inl err \<Rightarrow> (http_Error err StatusInternalServerError, [JobsList namespace opts])
      | Inr jobs \<Rightarrow>
          (respondJSON E
             (JobListResponse
                (sort_Slice (\<lambda>a b. After (CreationTimestamp a) (CreationTimestamp b))
                   (ListItems jobs))
                (ListContinue jobs)),
           [JobsList namespace opts]))"

definition jobDetails ::
  "api_env \<Rightarrow> request \<Rightarrow> string \<Rightarrow> string \<Rightarrow> payload response \<times> kcall list" where
  "jobDetails E r namespace name =
     (case Jobs_Get E namespace name of
        Inl err \<Rightarrow> (http_Error err StatusInternalServerError, [JobsGet namespace name])
      | Inr job \<Rightarrow>
          (let opts = \<lparr>LabelSelector = ''job-name='' @ name, Limit = 0, Continue = []\<rparr> in
           case Pods_List E namespace opts of
             Inl err \<Rightarrow>
               (http_Error err StatusInternalServerError,
                [JobsGet namespace name, PodsList namespace opts])
           | Inr pods \<Rightarrow>
               (respondJSON E (JobDetailsResponse job pods),
                [JobsGet namespace name, PodsList namespace opts])))"

definition podLogs :: "api_env \<Rightarrow> request \<Rightarrow> payload response \<times> kcall list" where
  "podLogs E r =
     (let namespace = getNamespace E (Query_Get (Query r) ''namespace'');
          pod = Query_Get (Query r) ''pod''
      in if namespace = [] \<or> pod = [] then
           (http_Error ''namespace and pod are required'' StatusBadRequest, [])
         else
           case Pods_GetLogs E namespace pod of
             Inl err \<Rightarrow> (http_Error err 500, [PodsGetLogs namespace pod])
           | Inr (Inl err) \<Rightarrow> (http_Error err 500, [PodsGetLogs namespace pod])
           | Inr (Inr logData) \<Rightarrow>
               (respondJSON E (LogsResponse logData), [PodsGetLogs namespace pod]))"

text \<open>The four patterns registered on the mux in \<open>main\<close>, each with its handler.\<close>

datatype api_route = Healthz | Jobs | JobsDetails | PodLogs

fun api_pattern :: "api_route \<Rightarrow> string" where
  "api_pattern Healthz = ''/healthz''"
| "api_pattern Jobs = ''/jobs''"
| "api_pattern JobsDetails = ''/jobs/details''"
| "api_pattern PodLogs = ''/pod/logs''"

fun api_handler :: "api_env \<Rightarrow> api_route \<Rightarrow> request \<Rightarrow> payload response \<times> kcall list" where
  "api_handler E Healthz r =
     (\<lparr>status = StatusOK, headers = [], body = Plain ''ok''\<rparr>, [])"
| "api_handler E Jobs r =
     (if Method r \<noteq> MethodGet then
        (http_Error ''method not allowed'' StatusMethodNotAllowed, [])
      else listJobs E r (getNamespace E (Query_Get (Query r) ''namespace'')))"
| "api_handler E JobsDetails r =
     (if Method r \<noteq> MethodGet then
        (http_Error ''method not allowed'' StatusMethodNotAllowed, [])
      else
        let namespace = getNamespace E (Query_Get (Query r) ''namespace'');
            name = Query_Get (Query r) ''name''
        in if namespace = [] \<or> name = [] then
             (http_Error ''namespace and name parameters required'' StatusBadRequest, [])
           else jobDetails E r namespace name)"
| "api_handler E PodLogs r =
     (if Method r \<noteq> MethodGet then
        (http_Error ''method not allowed'' StatusMethodNotAllowed, [])
      else podLogs E r)"

section \<open>The dashboard service (operator/dashboard/main.go)\<close>

subsection \<open>Strings and paths of Go's library\<close>

definition TrimPrefix :: "string \<Rightarrow> string \<Rightarrow> string" where
  "TrimPrefix s p = (if prefix p s then drop (length p) s else s)"

text \<open>
  \<open>strings.SplitN(s, sep, n)\<close> for a separator of one byte: at most \<open>n\<close> pieces, the last
  one the unsplit rest; no piece at all for \<open>n = 0\<close>.
\<close>

fun SplitN :: "string \<Rightarrow> char \<Rightarrow> nat \<Rightarrow> string list" where
  "SplitN s c 0 = []"
| "SplitN s c (Suc 0) = [s]"
| "SplitN s c (Suc (Suc n)) =
     (if c \<in> set s
      then takeWhile (\<lambda>x. x \<noteq> c) s # SplitN (tl (dropWhile (\<lambda>x. x \<noteq> c) s)) c (Suc n)
      else [s])"

text \<open>The elements of a path: the pieces between its slashes.\<close>

fun split_slash :: "string \<Rightarrow> string list" where
  "split_slash [] = [[]]"
| "split_slash (x # xs) =
     (if x = CHR ''/'' then [] # split_slash xs
      else (case split_slash xs of
              [] \<Rightarrow> [[x]]
            | w # ws \<Rightarrow> (x # w) # ws))"

fun join_slash :: "string list \<Rightarrow> string" where
  "join_slash [] = []"
| "join_slash [x] = x"
| "join_slash (x # y # ys) = x @ CHR ''/'' # join_slash (y # ys)"

text \<open>
  \<open>path.Clean\<close> (and \<open>filepath.Clean\<close>, the same function where the separator is the
  slash), by the rules of its documentation: empty and \<open>.\<close> elements go, a \<open>..\<close> element
  goes together with the element before it, a \<open>..\<close> at the start of a rooted path goes,
  and one at the start of a relative path stays. The elements kept so far are a stack,
  the last one on top.
\<close>

fun clean_elems :: "bool \<Rightarrow> string list \<Rightarrow> string list \<Rightarrow> string list" where
  "clean_elems rooted stack [] = rev stack"
| "clean_elems rooted stack (e # es) =
     (if e = [] \<or> e = ''.'' then clean_elems rooted stack es
      else if e = ''..'' then
        (case stack of
           [] \<Rightarrow> if rooted then clean_elems rooted [] es else clean_elems rooted [''..''] es
         | t # ts \<Rightarrow>
             if t = ''..'' then clean_elems rooted (''..'' # stack) es
             else clean_elems rooted ts es)
      else clean_elems rooted (e # stack) es)"

definition path_Clean :: "string \<Rightarrow> string" where
  "path_Clean p =
     (if p = [] then ''.''
      else
        let rooted = (hd p = CHR ''/'');
            out = clean_elems rooted [] (split_slash p)
        in if rooted then CHR ''/'' # join_slash out
           else if out = [] then ''.'' else join_slash out)"

text \<open>
  \<open>filepath.Join\<close>: the elements from the first non-empty one on, joined by slashes and
  cleaned; the empty string when all are empty.
\<close>

definition filepath_Join :: "string list \<Rightarrow> string" where
  "filepath_Join elem =
     (case dropWhile (\<lambda>e. e = []) elem of
        [] \<Rightarrow> []
      | es \<Rightarrow> path_Clean (join_slash es))"

subsection \<open>The file server behind \<open>/pw/\<close>\<close>

text \<open>
  What the handler of \<open>/pw/\<close> does with a request: it answers itself, or the file server
  redirects, or the file server opens one name of the file system and answers from it
  (the file, the index page or the listing of a directory, a redirect to the canonical
  name, or 404 when nothing has that name).
\<close>

datatype served = Reply "unit response" | Redirect string | Open string

definition http_NotFound :: served where
  "http_NotFound = Reply (http_Error ''404 page not found'' StatusNotFound)"

record url =
  Path :: string
  RawPath :: string

text \<open>\<open>http.Dir(dir).Open(name)\<close> opens this name of the file system.\<close>

definition Dir_Open :: "string \<Rightarrow> string \<Rightarrow> string" where
  "Dir_Open dir name =
     filepath_Join [if dir = [] then ''.'' else dir, path_Clean (CHR ''/'' # name)]"

text \<open>
  \<open>http.FileServer(http.Dir(root))\<close>: a path ending in \<open>/index.html\<close> is redirected to
  its directory; any other is rooted, cleaned and opened under \<open>root\<close>.
\<close>

definition FileServer :: "string \<Rightarrow> url \<Rightarrow> served" where
  "FileServer root u =
     (let upath = (if prefix ''/'' (Path u) then Path u else CHR ''/'' # Path u)
      in if suffix ''/index.html'' upath then Redirect ''./''
         else Open (Dir_Open root (path_Clean upath)))"

text \<open>
  \<open>http.StripPrefix\<close>: the handler sees the path without the prefix; a path (or a raw
  path, when the request has one) that does not start with the prefix is answered 404.
\<close>

definition StripPrefix :: "string \<Rightarrow> (url \<Rightarrow> served) \<Rightarrow> url \<Rightarrow> served" where
  "StripPrefix pre h u =
     (let p = TrimPrefix (Path u) pre; rp = TrimPrefix (RawPath u) pre
      in if length p < length (Path u) \<and> (RawPath u = [] \<or> length rp < length (RawPath u))
         then h \<lparr>Path = p, RawPath = rp\<rparr>
         else http_NotFound)"

definition pw_handler :: "url \<Rightarrow> served" where
  "pw_handler u =
     (let path = Path u;
          parts = SplitN (TrimPrefix path ''/pw/'') (CHR ''/'') 2
      in if length parts < 2 then http_NotFound
         else
           let uid = hd parts;
               root = filepath_Join [''/playwright-results'', uid]
           in StripPrefix (''/pw/'' @ uid @ ''/'') (FileServer root) u)"

text \<open>
  The shape \<open>/pw/<uid>/<path>\<close> in the words of the specification: the prefix \<open>/pw/\<close>,
  then a uid, then a slash, then anything.
\<close>

definition pw_shaped :: "string \<Rightarrow> bool" where
  "pw_shaped p = (prefix ''/pw/'' p \<and> CHR ''/'' \<in> set (drop 4 p))"

definition pw_uid :: "string \<Rightarrow> string" where
  "pw_uid p = takeWhile (\<lambda>x. x \<noteq> CHR ''/'') (drop 4 p)"

text \<open>
  A name lies under a directory when the elements of the directory start the elements
  of the name.
\<close>

definition elems :: "string \<Rightarrow> string list" where
  "elems p = filter (\<lambda>e. e \<noteq> []) (split_slash p)"

definition under_dir :: "string \<Rightarrow> string \<Rightarrow> bool" where
  "under_dir dir name = prefix (elems dir) (elems name)"

subsection \<open>Durations\<close>

text \<open>
  A \<open>time.Duration\<close> is a signed 64-bit count of nanoseconds. Values are integers here,
  and every operation that can leave the 64-bit range wraps explicitly.
\<close>

type_synonym Duration = int

definition wrap64 :: "int \<Rightarrow> int" where
  "wrap64 x = (x + 9223372036854775808) mod 18446744073709551616 - 9223372036854775808"

definition minDuration :: Duration where
  "minDuration = - 9223372036854775808"

definition maxDuration :: Duration where
  "maxDuration = 9223372036854775807"

definition Second :: Duration where
  "Second = 1000000000"

text \<open>
  \<open>t.Sub(u)\<close>: the difference computed in 64 bits; when adding it back to \<open>u\<close> does not
  give \<open>t\<close>, the difference was out of range and the result is the smallest or the
  largest duration.
\<close>

definition Time_Sub :: "Time \<Rightarrow> Time \<Rightarrow> Duration" where
  "Time_Sub t u =
     (let d = wrap64 (t - u)
      in if u + d = t then d
         else if t < u then minDuration
         else maxDuration)"

text \<open>Go's \<open>%\<close> truncates towards zero: the remainder has the sign of the dividend.\<close>

definition go_rem :: "int \<Rightarrow> int \<Rightarrow> int" where
  "go_rem a b = sgn a * (\<bar>a\<bar> mod \<bar>b\<bar>)"

definition lessThanHalf :: "Duration \<Rightarrow> Duration \<Rightarrow> bool" where
  "lessThanHalf x y = ((x + x) mod 18446744073709551616 < y mod 18446744073709551616)"

definition Duration_Round :: "Duration \<Rightarrow> Duration \<Rightarrow> Duration" where
  "Duration_Round d m =
     (if m \<le> 0 then d
      else
        let r = go_rem d m in
        if d < 0 then
          (let r = - r in
           if lessThanHalf r m then wrap64 (d + r)
           else
             let d1 = wrap64 (d - m + r) in
             if d1 < d then d1 else minDuration)
        else if lessThanHalf r m then wrap64 (d - r)
        else
          let d1 = wrap64 (d + m - r) in
          if d1 > d then d1 else maxDuration)"

text \<open>\<open>Duration.String\<close>: \<open>fmtInt\<close>, \<open>fmtFrac\<close> and \<open>format\<close> of package \<open>time\<close>.\<close>

definition digit_char :: "int \<Rightarrow> char" where
  "digit_char n = char_of (48 + n)"

function fmtInt :: "int \<Rightarrow> string" where
  "fmtInt v = (if v < 10 then [digit_char v] else fmtInt (v div 10) @ [digit_char (v mod 10)])"
  by pat_completeness auto
termination
  by (relation "measure nat") auto

declare fmtInt.simps [simp del]

fun frac_loop :: "nat \<Rightarrow> int \<Rightarrow> bool \<Rightarrow> string \<Rightarrow> string \<times> int" where
  "frac_loop 0 v print buf = (if print then CHR ''.'' # buf else buf, v)"
| "frac_loop (Suc i) v print buf =
     (let digit = v mod 10;
          print = (print \<or> digit \<noteq> 0)
      in frac_loop i (v div 10) print (if print then digit_char digit # buf else buf))"

definition fmtFrac :: "int \<Rightarrow> nat \<Rightarrow> string \<times> int" where
  "fmtFrac v prec = frac_loop prec v False []"

text \<open>
  \<open>u\<close> is the magnitude of the duration as an unsigned 64-bit number (that of the smallest
  duration is \<open>2^63\<close>).
\<close>

definition Duration_String :: "Duration \<Rightarrow> string" where
  "Duration_String d =
     (let u = \<bar>d\<bar>;
          sign = (if d < 0 then ''-'' else [])
      in if u < 1000000000 then
           (if u = 0 then ''0s''
            else if u < 1000 then sign @ fmtInt u @ ''ns''
            else if u < 1000000 then
              (case fmtFrac u 3 of (f, v) \<Rightarrow> sign @ fmtInt v @ f @ [CHR 0xC2, CHR 0xB5] @ ''s'')
            else
              (case fmtFrac u 6 of (f, v) \<Rightarrow> sign @ fmtInt v @ f @ ''ms''))
         else
           (case fmtFrac u 9 of (f, v) \<Rightarrow>
              let secs = fmtInt (v mod 60) @ f @ ''s'';
                  v = v div 60
              in if v > 0 then
                   (let mins = fmtInt (v mod 60) @ ''m'';
                        v = v div 60
                    in if v > 0 then sign @ fmtInt v @ ''h'' @ mins @ secs
                       else sign @ mins @ secs)
                 else sign @ secs))"

text \<open>
  The nearest whole second in the words of the specification, halfway values away from
  zero (as the documentation of \<open>Duration.Round\<close> has it).
\<close>

definition nearest_second :: "int \<Rightarrow> int" where
  "nearest_second d =
     (if 0 \<le> d then (d + 500000000) div 1000000000 * 1000000000
      else - ((- d + 500000000) div 1000000000 * 1000000000))"

definition fits64 :: "int \<Rightarrow> bool" where
  "fits64 x = (- 9223372036854775808 \<le> x \<and> x \<le> 9223372036854775807)"

subsection \<open>Backend calls and views\<close>

text \<open>The job of the list view (the dashboard's own \<open>Job\<close> struct).\<close>

record ListedJob =
  UID :: string
  ListedName :: string
  ListedNamespace :: string
  ListedCreationTimestamp :: string
  Active :: int
  Succeeded :: int
  Failed :: int

record JobDetails =
  DetailsJob :: Job
  DetailsPods :: "Pod list"

record JobDetailsView =
  ViewJob :: Job
  ViewPods :: "Pod list"
  Start :: string
  Finish :: string
  Duration :: string

text \<open>
  The reply of the backend to \<open>http.Get\<close>: its status code and what \<open>io.ReadAll\<close> gets
  out of its body (the bytes read, and the error that stopped the reading, if any).
\<close>

record backend_reply =
  StatusCode :: nat
  ReadAll :: "string \<times> string option"

text \<open>
  \<open>json.Unmarshal\<close> checks the syntax of the whole text first and stores nothing when it
  is not valid JSON; otherwise it stores what it can decode (and may still report an
  error, which the dashboard drops).
\<close>

datatype 'a unmarshalled = SyntaxError | Stored 'a

text \<open>
  What the dashboard reaches outside itself: the environment, \<open>http.Get\<close>, the decoders
  of \<open>encoding/json\<close> for its three targets, and \<open>Time.Format(time.RFC3339)\<close>, which
  depends on the time zone of the process.
\<close>

record dash_env =
  dash_Getenv :: "string \<Rightarrow> string"
  http_Get :: "string \<Rightarrow> string + backend_reply"
  Unmarshal_JobListResponse :: "string \<Rightarrow> ListedJob list unmarshalled"
  Unmarshal_JobDetails :: "string \<Rightarrow> JobDetails unmarshalled"
  Unmarshal_Logs :: "string \<Rightarrow> string unmarshalled"
  Format_RFC3339 :: "Time \<Rightarrow> string"

text \<open>
  The data handed to \<open>templates.ExecuteTemplate\<close>. The templates are files outside the
  program; a page is the name of its template and its data. The handlers write no status
  of their own on this path, so the status of a page is 200.
\<close>

datatype tmpl_data =
  JobListData "ListedJob list"
| JobDetailsData JobDetailsView
| PodLogsData string string string

type_synonym page = "string \<times> tmpl_data"

definition ExecuteTemplate :: "string \<Rightarrow> tmpl_data \<Rightarrow> page response" where
  "ExecuteTemplate name data = \<lparr>status = StatusOK, headers = [], body = Content (name, data)\<rparr>"

text \<open>The zero values of Go that a failed decoding leaves in place.\<close>

definition zero_Job :: Job where
  "zero_Job =
     \<lparr>Name = [], Namespace = [], CreationTimestamp = 0, StartTime = None,
      CompletionTime = None\<rparr>"

definition zero_JobDetails :: JobDetails where
  "zero_JobDetails = \<lparr>DetailsJob = zero_Job, DetailsPods = []\<rparr>"

record form_request =
  Form :: "(string \<times> string) list"

definition FormValue :: "form_request \<Rightarrow> string \<Rightarrow> string" where
  "FormValue r k = Query_Get (Form r) k"

definition backend :: "dash_env \<Rightarrow> string" where
  "backend D =
     (let b = dash_Getenv D ''BACKEND_URL''
      in if b = [] then ''http://localhost:8080'' else b)"

definition callBackend :: "dash_env \<Rightarrow> string \<Rightarrow> string + string" where
  "callBackend D url =
     (case http_Get D url of
        Inl err \<Rightarrow> Inl err
      | Inr resp \<Rightarrow> Inr (fst (ReadAll resp)))"

definition getNamespace_dashboard :: "dash_env \<Rightarrow> string \<Rightarrow> string" where
  "getNamespace_dashboard D namespace =
     (if namespace = [] then dash_Getenv D ''DEFAULT_NAMESPACE'' else namespace)"

text \<open>Each handler returns its response and the URLs it fetched from the backend.\<close>

definition frontend_jobs :: "dash_env \<Rightarrow> form_request \<Rightarrow> page response \<times> string list" where
  "frontend_jobs D r =
     (let namespace = getNamespace_dashboard D (FormValue r ''namespace'');
          url = backend D @ ''/jobs?namespace='' @ namespace
      in case callBackend D url of
           Inl err \<Rightarrow> (http_Error err 500, [url])
         | Inr bytes \<Rightarrow>
             (let parsed =
                    (case Unmarshal_JobListResponse D bytes of
                       SyntaxError \<Rightarrow> []
                     | Stored items \<Rightarrow> items)
              in (ExecuteTemplate ''job_list.html'' (JobListData parsed), [url])))"

text \<open>Lines 93 to 116 of the details handler: the view made from the decoded details.\<close>

definition details_view :: "dash_env \<Rightarrow> JobDetails \<Rightarrow> JobDetailsView" where
  "details_view D details =
     (let startStr =
            (case StartTime (DetailsJob details) of
               None \<Rightarrow> []
             | Some t \<Rightarrow> Format_RFC3339 D t);
          finishStr =
            (case CompletionTime (DetailsJob details) of
               None \<Rightarrow> []
             | Some t \<Rightarrow> Format_RFC3339 D t);
          durationStr =
            (case (StartTime (DetailsJob details), CompletionTime (DetailsJob details)) of
               (Some s, Some c) \<Rightarrow> Duration_String (Duration_Round (Time_Sub c s) Second)
             | _ \<Rightarrow> [])
      in \<lparr>ViewJob = DetailsJob details, ViewPods = DetailsPods details,
          Start = startStr, Finish = finishStr, Duration = durationStr\<rparr>)"

definition frontend_job_details ::
  "dash_env \<Rightarrow> form_request \<Rightarrow> page response \<times> string list" where
  "frontend_job_details D r =
     (let namespace = getNamespace_dashboard D (FormValue r ''namespace'');
          name = FormValue r ''name'';
          url = backend D @ ''/jobs/details?namespace='' @ namespace @ ''&name='' @ name
      in case callBackend D url of
           Inl err \<Rightarrow> (http_Error err 500, [url])
         | Inr bytes \<Rightarrow>
             (let details =
                    (case Unmarshal_JobDetails D bytes of
                       SyntaxError \<Rightarrow> zero_JobDetails
                     | Stored d \<Rightarrow> d)
              in (ExecuteTemplate ''job_details.html'' (JobDetailsData (details_view D details)),
                  [url])))"

definition frontend_pod_logs :: "dash_env \<Rightarrow> form_request \<Rightarrow> page response \<times> string list" where
  "frontend_pod_logs D r =
     (let namespace = getNamespace_dashboard D (FormValue r ''namespace'');
          pod = FormValue r ''pod'';
          backendURL = backend D @ ''/pod/logs?pod='' @ pod @ ''&namespace='' @ namespace
      in case callBackend D backendURL of
           Inl err \<Rightarrow> (http_Error err 500, [backendURL])
         | Inr bytes \<Rightarrow>
             (let logs =
                    (case Unmarshal_Logs D bytes of
                       SyntaxError \<Rightarrow> []
                     | Stored l \<Rightarrow> l)
              in (ExecuteTemplate ''pod_logs.html'' (PodLogsData namespace pod logs),
                  [backendURL])))"

datatype dash_route = FrontendJobs | FrontendJobDetails | FrontendPodLogs

fun dash_handler :: "dash_env \<Rightarrow> dash_route \<Rightarrow> form_request \<Rightarrow> page response \<times> string list" where
  "dash_handler D FrontendJobs r = frontend_jobs D r"
| "dash_handler D FrontendJobDetails r = frontend_job_details D r"
| "dash_handler D FrontendPodLogs r = frontend_pod_logs D r"

section \<open>Properties in the words of the specification\<close>

definition adjacent_pairs :: "'a list \<Rightarrow> ('a \<times> 'a) list" where
  "adjacent_pairs xs = zip xs (tl xs)"

text \<open>Of two adjacent jobs the first was created strictly later than the second.\<close>

definition strictly_descending :: "Job list \<Rightarrow> bool" where
  "strictly_descending items =
     list_all (\<lambda>(a, b). CreationTimestamp b < CreationTimestamp a) (adjacent_pairs items)"

text \<open>Of two adjacent jobs the second was not created later than the first.\<close>

definition descending :: "Job list \<Rightarrow> bool" where
  "descending items =
     list_all (\<lambda>(a, b). CreationTimestamp b \<le> CreationTimestamp a) (adjacent_pairs items)"

text \<open>The namespace a request means: its parameter, or the default when that is empty.\<close>

definition effective_namespace :: "string \<Rightarrow> string \<Rightarrow> string" where
  "effective_namespace param dflt = (if param \<noteq> [] then param else dflt)"

text \<open>A proper name of a path element: not empty, not a dot or two, no slash inside.\<close>

definition plain :: "string \<Rightarrow> bool" where
  "plain e = (e \<noteq> [] \<and> e \<noteq> ''.'' \<and> e \<noteq> ''..'' \<and> CHR ''/'' \<notin> set e)"

text \<open>The options of a listing that asks for everything at once: \<open>metav1.ListOptions{}\<close>.\<close>

definition empty_opts :: ListOptions where
  "empty_opts = \<lparr>LabelSelector = [], Limit = 0, Continue = []\<rparr>"

section \<open>A small cluster and a small backend for concrete runs\<close>

definition job :: "string \<Rightarrow> Time \<Rightarrow> Job" where
  "job n t =
     \<lparr>Name = n, Namespace = ''default'', CreationTimestamp = t, StartTime = None,
      CompletionTime = None\<rparr>"

text \<open>Three jobs, two of them created at the same instant.\<close>

definition demo_jobs :: "Job list" where
  "demo_jobs = [job ''a'' 100, job ''b'' 300, job ''c'' 300]"

text \<open>
  A cluster that honours \<open>Limit\<close>: asked for a page of \<open>n > 0\<close> jobs it returns the first
  \<open>n\<close> and a continuation token when more are left. Its default namespace is set.
\<close>

definition demo_env :: api_env where
  "demo_env =
     \<lparr>Jobs_List = (\<lambda>ns opts.
        Inr \<lparr>ListItems =
               (if 0 < Limit opts then take (nat (Limit opts)) demo_jobs else demo_jobs),
             ListContinue =
               (if 0 < Limit opts \<and> Limit opts < int (length demo_jobs) then ''next''
                else [])\<rparr>),
      Jobs_Get = (\<lambda>ns name.
        case find (\<lambda>j. Name j = name) demo_jobs of
          None \<Rightarrow> Inl ''not found''
        | Some j \<Rightarrow> Inr j),
      Pods_List = (\<lambda>ns opts. Inr []),
      Pods_GetLogs = (\<lambda>ns pod. Inr (Inr ''done'')),
      Getenv = (\<lambda>k. if k = ''DEFAULT_NAMESPACE'' then ''default'' else []),
      Encode_error = (\<lambda>p. None)\<rparr>"

text \<open>
  A backend that answers every request with the 400 of \<open>/jobs/details\<close>, decoders that
  reject every text not starting with a brace, and a stand-in for the rendering of
  instants that only keeps them apart.
\<close>

definition demo_dash :: dash_env where
  "demo_dash =
     \<lparr>dash_Getenv = (\<lambda>k. if k = ''DEFAULT_NAMESPACE'' then ''default'' else []),
      http_Get = (\<lambda>url.
        Inr \<lparr>StatusCode = 400,
             ReadAll = (''namespace and name parameters required'' @ [CHR 0x0A], None)\<rparr>),
      Unmarshal_JobListResponse = (\<lambda>s. if take 1 s = ''{'' then Stored [] else SyntaxError),
      Unmarshal_JobDetails =
        (\<lambda>s. if take 1 s = ''{'' then Stored zero_JobDetails else SyntaxError),
      Unmarshal_Logs = (\<lambda>s. if take 1 s = ''{'' then Stored [] else SyntaxError),
      Format_RFC3339 = (\<lambda>t. ''@'' @ fmtInt t)\<rparr>"

text \<open>
  Two decoded job details. The first job started at the zero instant
  (\<open>0001-01-01T00:00:00Z\<close>) and completed at \<open>2024-01-01T00:00:00Z\<close>, 63839664000
  seconds later; the second ran for one hour, two minutes and 3.4 seconds.
\<close>

definition ancient_details :: JobDetails where
  "ancient_details =
     \<lparr>DetailsJob = (job ''a'' 0)\<lparr>StartTime := Some 0,
                                  CompletionTime := Some 63839664000000000000\<rparr>,
      DetailsPods = []\<rparr>"

definition timed_details :: JobDetails where
  "timed_details =
     \<lparr>DetailsJob = (job ''b'' 300)\<lparr>StartTime := Some 63839664000000000000,
                                    CompletionTime := Some 63839667723400000000\<rparr>,
      DetailsPods = []\<rparr>"

text \<open>A job whose completion time lies before its start, by 63839664000 seconds.\<close>

definition early_details :: JobDetails where
  "early_details =
     \<lparr>DetailsJob = (job ''c'' 300)\<lparr>StartTime := Some 63839664000000000000,
                                    CompletionTime := Some 0\<rparr>,
      DetailsPods = []\<rparr>"

text \<open>
  The form of a request to \<open>/frontend/pod/logs\<close> whose pod parameter holds an
  ampersand, as in \<open>?pod=p%26namespace%3Dkube-system&namespace=team-a\<close>.
\<close>

definition injected_form :: form_request where
  "injected_form =
     \<lparr>Form = [(''pod'', ''p&namespace=kube-system''), (''namespace'', ''team-a'')]\<rparr>"

text \<open>The view of details that were never decoded.\<close>

definition zero_view :: JobDetailsView where
  "zero_view = \<lparr>ViewJob = zero_Job, ViewPods = [], Start = [], Finish = [], Duration = []\<rparr>"

section \<open>The API service: methods and the health check\<close>

lemmas status_defs =
  StatusOK_def StatusBadRequest_def StatusNotFound_def StatusMethodNotAllowed_def
  StatusInternalServerError_def

text \<open>
  C9. Every GET request to \<open>/healthz\<close> receives status 200 with the body \<open>ok\<close> and
  nothing else; the handler calls nothing on the cluster.
\<close>

theorem healthz_ok:
  "Method r = MethodGet \<Longrightarrow>
   api_handler E Healthz r = (\<lparr>status = 200, headers = [], body = Plain ''ok''\<rparr>, [])"
  by (simp add: StatusOK_def)

theorem healthz_ok_witness:
  "Method \<lparr>Method = ''GET'', Query = []\<rparr> = MethodGet \<and>
   api_handler demo_env Healthz \<lparr>Method = ''GET'', Query = []\<rparr> =
     (\<lparr>status = 200, headers = [], body = Plain ''ok''\<rparr>, [])"
  using healthz_ok [of "\<lparr>Method = ''GET'', Query = []\<rparr>" demo_env]
  by (simp add: MethodGet_def)

text \<open>
  C4, as stated, fails on \<open>/healthz\<close>: its handler never looks at the method, so a POST
  is answered 200 and not 405.
\<close>

theorem healthz_any_method_counterexample:
  "Method \<lparr>Method = ''POST'', Query = []\<rparr> \<noteq> MethodGet \<and>
   status (fst (api_handler demo_env Healthz \<lparr>Method = ''POST'', Query = []\<rparr>)) = 200 \<and>
   status (fst (api_handler demo_env Healthz \<lparr>Method = ''POST'', Query = []\<rparr>))
     \<noteq> StatusMethodNotAllowed"
  by (simp add: MethodGet_def status_defs)

text \<open>
  C4, amended. On each of the three routes that check the method (\<open>/jobs\<close>,
  \<open>/jobs/details\<close>, \<open>/pod/logs\<close>) every request whose method is not GET is answered 405
  with the plain text \<open>method not allowed\<close>, and nothing is called on the cluster;
  \<open>/healthz\<close> answers such a request 200 \<open>ok\<close>.
\<close>

theorem non_get_405:
  assumes "Method r \<noteq> MethodGet" and "route \<in> {Jobs, JobsDetails, PodLogs}"
  shows "api_handler E route r = (http_Error ''method not allowed'' 405, []) \<and>
         api_handler E Healthz r = (\<lparr>status = 200, headers = [], body = Plain ''ok''\<rparr>, [])"
  using assms by (auto simp: status_defs)

theorem non_get_405_witness:
  "Method \<lparr>Method = ''POST'', Query = []\<rparr> \<noteq> MethodGet \<and>
   PodLogs \<in> {Jobs, JobsDetails, PodLogs} \<and>
   status (fst (api_handler demo_env PodLogs \<lparr>Method = ''POST'', Query = []\<rparr>)) = 405"
proof -
  have m: "Method \<lparr>Method = ''POST'', Query = []\<rparr> \<noteq> MethodGet"
    by (simp add: MethodGet_def)
  have r: "PodLogs \<in> {Jobs, JobsDetails, PodLogs}" by simp
  show ?thesis
    using m r non_get_405 [OF m r, of demo_env] by (simp add: http_Error_def)
qed

section \<open>Listing jobs\<close>

text \<open>
  The insertion sort keeps a prefix that is already in order; the element moved to the
  left stops behind the last element that is not created earlier than it.
\<close>

lemma dropWhile_sorted_ge:
  "sorted_wrt (\<lambda>a b. key a \<le> key b) zs \<Longrightarrow>
   \<forall>y \<in> set (dropWhile (\<lambda>y. key y < (k::int)) zs). k \<le> key y"
  by (induction zs) auto

lemma sift_sorted:
  fixes key :: "'a \<Rightarrow> int"
  assumes "sorted_wrt (\<lambda>a b. key b \<le> key a) ys"
  shows "sorted_wrt (\<lambda>a b. key b \<le> key a) (sift (\<lambda>a b. After (key a) (key b)) ys x)"
proof -
  let ?r = "rev ys"
  let ?T = "takeWhile (\<lambda>y. key y < key x) ?r"
  let ?D = "dropWhile (\<lambda>y. key y < key x) ?r"
  have r: "sorted_wrt (\<lambda>a b. key a \<le> key b) ?r"
    using assms by (simp add: sorted_wrt_rev)
  then have "sorted_wrt (\<lambda>a b. key a \<le> key b) (?T @ ?D)" by simp
  then have T: "sorted_wrt (\<lambda>a b. key a \<le> key b) ?T"
    and D: "sorted_wrt (\<lambda>a b. key a \<le> key b) ?D"
    unfolding sorted_wrt_append by blast+
  have Dge: "\<forall>y \<in> set ?D. key x \<le> key y"
    using dropWhile_sorted_ge [OF r] .
  have Tlt: "\<forall>y \<in> set ?T. key y < key x"
    by (auto dest: set_takeWhileD)
  show ?thesis
    unfolding sift_def After_def
    using T D Dge Tlt by (fastforce simp: sorted_wrt_append sorted_wrt_rev)
qed

lemma sift_mset: "mset (sift lt ys x) = add_mset x (mset ys)"
proof -
  have "mset (takeWhile (lt x) (rev ys)) + mset (dropWhile (lt x) (rev ys)) = mset (rev ys)"
    by (metis mset_append takeWhile_dropWhile_id)
  then show ?thesis by (simp add: sift_def add.commute)
qed

lemma foldl_sift_sorted:
  fixes key :: "'a \<Rightarrow> int"
  shows "sorted_wrt (\<lambda>a b. key b \<le> key a) acc \<Longrightarrow>
    sorted_wrt (\<lambda>a b. key b \<le> key a) (foldl (sift (\<lambda>a b. After (key a) (key b))) acc xs)"
  by (induction xs arbitrary: acc) (simp_all add: sift_sorted)

lemma foldl_sift_mset: "mset (foldl (sift lt) acc xs) = mset acc + mset xs"
  by (induction xs arbitrary: acc) (simp_all add: sift_mset)

lemma sort_Slice_sorted:
  fixes key :: "'a \<Rightarrow> int"
  shows "sorted_wrt (\<lambda>a b. key b \<le> key a) (sort_Slice (\<lambda>a b. After (key a) (key b)) xs)"
  unfolding sort_Slice_def by (rule foldl_sift_sorted) simp

lemma sort_Slice_mset: "mset (sort_Slice lt xs) = mset xs"
  by (simp add: sort_Slice_def foldl_sift_mset)

lemma sorted_wrt_adjacent:
  "sorted_wrt P xs \<Longrightarrow> list_all (\<lambda>(a, b). P a b) (adjacent_pairs xs)"
  unfolding adjacent_pairs_def
  by (induction xs rule: induct_list012) (auto simp: list_all_iff)

lemma sort_Slice_descending:
  "descending (sort_Slice (\<lambda>a b. After (CreationTimestamp a) (CreationTimestamp b)) xs)"
  unfolding descending_def
  using sorted_wrt_adjacent [OF sort_Slice_sorted [of CreationTimestamp xs]] .

lemma respondJSON_ok:
  "status (respondJSON E data) = StatusOK \<Longrightarrow>
   respondJSON E data =
     \<lparr>status = StatusOK, headers = [(''Content-Type'', ''application/json'')],
      body = Content data\<rparr>"
  by (auto simp: respondJSON_def http_Error_def status_defs split: option.splits)

text \<open>
  C1, as stated, fails when two jobs carry the same creation timestamp: they end up next
  to each other, and neither is created strictly later than the other.
\<close>

theorem demo_jobs_ties_counterexample:
  "fst (api_handler demo_env Jobs \<lparr>Method = ''GET'', Query = []\<rparr>) =
     \<lparr>status = 200, headers = [(''Content-Type'', ''application/json'')],
      body = Content (JobListResponse [job ''b'' 300, job ''c'' 300, job ''a'' 100] [])\<rparr> \<and>
   \<not> strictly_descending [job ''b'' 300, job ''c'' 300, job ''a'' 100]"
  by (simp add: MethodGet_def getNamespace_def Query_Get_def demo_env_def listJobs_def
      respondJSON_def status_defs sort_Slice_def sift_def After_def demo_jobs_def job_def
      strictly_descending_def adjacent_pairs_def)

text \<open>
  C1, amended. Every response of \<open>GET /jobs\<close> with status 200 carries the jobs that the
  cluster returned for the namespace, each as often as the cluster returned it, in an
  order in which no job is created later than the job before it; jobs with equal
  creation timestamps are adjacent, in either order. Its \<open>continue\<close> field is the token
  of the cluster.
\<close>

theorem listJobs_descending:
  assumes "api_handler E Jobs r = (resp, calls)" and "status resp = StatusOK"
  shows "\<exists>jobs items.
           Jobs_List E (getNamespace E (Query_Get (Query r) ''namespace'')) empty_opts
             = Inr jobs \<and>
           body resp = Content (JobListResponse items (ListContinue jobs)) \<and>
           mset items = mset (ListItems jobs) \<and>
           descending items"
proof -
  let ?ns = "getNamespace E (Query_Get (Query r) ''namespace'')"
  from assms have get: "Method r = MethodGet"
    by (auto simp: http_Error_def status_defs split: if_splits)
  with assms(1) have run: "listJobs E r ?ns = (resp, calls)" by simp
  show ?thesis
  proof (cases "Jobs_List E ?ns empty_opts")
    case (Inl err)
    with run assms(2) show ?thesis
      by (auto simp: listJobs_def empty_opts_def http_Error_def status_defs)
  next
    case (Inr jobs)
    let ?items = "sort_Slice (\<lambda>a b. After (CreationTimestamp a) (CreationTimestamp b))
                    (ListItems jobs)"
    from run Inr have resp: "resp = respondJSON E (JobListResponse ?items (ListContinue jobs))"
      by (auto simp: listJobs_def empty_opts_def)
    with assms(2) have "body resp = Content (JobListResponse ?items (ListContinue jobs))"
      using respondJSON_ok [of E "JobListResponse ?items (ListContinue jobs)"] by simp
    with Inr show ?thesis
      using sort_Slice_descending [of "ListItems jobs"] sort_Slice_mset by blast
  qed
qed

theorem listJobs_descending_witness:
  "status (fst (api_handler demo_env Jobs \<lparr>Method = ''GET'', Query = []\<rparr>)) = StatusOK \<and>
   (\<exists>jobs items.
      Jobs_List demo_env
        (getNamespace demo_env (Query_Get (Query \<lparr>Method = ''GET'', Query = []\<rparr>) ''namespace''))
        empty_opts = Inr jobs \<and>
      body (fst (api_handler demo_env Jobs \<lparr>Method = ''GET'', Query = []\<rparr>)) =
        Content (JobListResponse items (ListContinue jobs)) \<and>
      mset items = mset (ListItems jobs) \<and>
      descending items)"
proof -
  let ?r = "\<lparr>Method = ''GET'', Query = []\<rparr>"
  have ok: "status (fst (api_handler demo_env Jobs ?r)) = StatusOK"
    by (simp add: MethodGet_def getNamespace_def Query_Get_def demo_env_def listJobs_def
        respondJSON_def status_defs)
  have run: "api_handler demo_env Jobs ?r =
      (fst (api_handler demo_env Jobs ?r), snd (api_handler demo_env Jobs ?r))"
    by simp
  show ?thesis
    using ok listJobs_descending [OF run ok] by blast
qed

text \<open>
  C2. The comment above the handler promises \<open>GET /jobs?namespace=ns&limit=50&continue=token\<close>,
  but \<open>listJobs\<close> never reads \<open>limit\<close> or \<open>continue\<close>: whatever the request says, the one
  call on the cluster carries empty options.
\<close>

lemma listJobs_calls: "snd (listJobs E r ns) = [JobsList ns empty_opts]"
  by (simp add: listJobs_def empty_opts_def Let_def split: sum.splits)

text \<open>
  C2 at a concrete request: \<open>GET /jobs?namespace=default&limit=1\<close> on a cluster with three
  jobs that would return one job and a continuation token for \<open>Limit = 1\<close>. The handler
  asks with \<open>Limit = 0\<close> and answers with all three jobs and no token.
\<close>

theorem listJobs_ignores_limit:
  "api_handler demo_env Jobs
     \<lparr>Method = ''GET'', Query = [(''namespace'', ''default''), (''limit'', ''1'')]\<rparr> =
   (\<lparr>status = 200, headers = [(''Content-Type'', ''application/json'')],
     body = Content (JobListResponse [job ''b'' 300, job ''c'' 300, job ''a'' 100] [])\<rparr>,
    [JobsList ''default'' \<lparr>LabelSelector = [], Limit = 0, Continue = []\<rparr>]) \<and>
   Jobs_List demo_env ''default'' \<lparr>LabelSelector = [], Limit = 1, Continue = []\<rparr> =
     Inr \<lparr>ListItems = [job ''a'' 100], ListContinue = ''next''\<rparr>"
  by (simp add: MethodGet_def getNamespace_def Query_Get_def demo_env_def listJobs_def
      respondJSON_def status_defs sort_Slice_def sift_def After_def demo_jobs_def job_def)

section \<open>Required parameters and the namespace\<close>

text \<open>
  C3, as stated, fails twice. A GET of \<open>/jobs/details\<close> with a name and without a
  namespace is served from the default namespace (here \<open>default\<close>) and reaches the
  cluster; and a request that is not a GET is answered 405 before any parameter is
  looked at.
\<close>

theorem fallback_namespace_counterexample:
  "map_of (Query \<lparr>Method = ''GET'', Query = [(''name'', ''a'')]\<rparr>) ''namespace'' = None \<and>
   api_handler demo_env JobsDetails \<lparr>Method = ''GET'', Query = [(''name'', ''a'')]\<rparr> =
     (\<lparr>status = 200, headers = [(''Content-Type'', ''application/json'')],
       body = Content (JobDetailsResponse (job ''a'' 100) [])\<rparr>,
      [JobsGet ''default'' ''a'',
       PodsList ''default'' \<lparr>LabelSelector = ''job-name=a'', Limit = 0, Continue = []\<rparr>]) \<and>
   status (fst (api_handler demo_env PodLogs \<lparr>Method = ''POST'', Query = []\<rparr>)) = 405"
  by (simp add: MethodGet_def getNamespace_def Query_Get_def demo_env_def jobDetails_def
      respondJSON_def status_defs demo_jobs_def job_def http_Error_def Let_def)

text \<open>
  C3, amended. For every GET request to \<open>/jobs/details\<close> (to \<open>/pod/logs\<close>): when the
  parameter \<open>name\<close> (\<open>pod\<close>) is missing or empty, or the namespace is empty after the
  fallback, the response is 400 and nothing is called on the cluster. The namespace is
  empty after the fallback exactly when the parameter is missing or empty and
  \<open>DEFAULT_NAMESPACE\<close> is unset or empty.
\<close>

theorem missing_params_400:
  assumes "Method r = MethodGet"
  shows "(getNamespace E (Query_Get (Query r) ''namespace'') = [] \<or>
          Query_Get (Query r) ''name'' = [] \<longrightarrow>
            api_handler E JobsDetails r =
              (http_Error ''namespace and name parameters required'' 400, [])) \<and>
         (getNamespace E (Query_Get (Query r) ''namespace'') = [] \<or>
          Query_Get (Query r) ''pod'' = [] \<longrightarrow>
            api_handler E PodLogs r = (http_Error ''namespace and pod are required'' 400, [])) \<and>
         (getNamespace E (Query_Get (Query r) ''namespace'') = []) =
           (Query_Get (Query r) ''namespace'' = [] \<and> Getenv E ''DEFAULT_NAMESPACE'' = [])"
  using assms
  by (auto simp: getNamespace_def podLogs_def status_defs Let_def split: if_splits)

theorem missing_params_400_witness:
  "Method \<lparr>Method = ''GET'', Query = []\<rparr> = MethodGet \<and>
   Query_Get (Query \<lparr>Method = ''GET'', Query = []\<rparr>) ''name'' = [] \<and>
   Query_Get (Query \<lparr>Method = ''GET'', Query = []\<rparr>) ''pod'' = [] \<and>
   api_handler demo_env JobsDetails \<lparr>Method = ''GET'', Query = []\<rparr> =
     (http_Error ''namespace and name parameters required'' 400, []) \<and>
   api_handler demo_env PodLogs \<lparr>Method = ''GET'', Query = []\<rparr> =
     (http_Error ''namespace and pod are required'' 400, [])"
proof -
  let ?r = "\<lparr>Method = ''GET'', Query = []\<rparr>"
  have g: "Method ?r = MethodGet" by (simp add: MethodGet_def)
  have n: "Query_Get (Query ?r) ''name'' = []" and p: "Query_Get (Query ?r) ''pod'' = []"
    by (simp_all add: Query_Get_def)
  show ?thesis
    using g n p missing_params_400 [OF g, of demo_env] by simp
qed

text \<open>
  Both \<open>getNamespace\<close> functions return the parameter unchanged when it is not empty
  and the value of \<open>DEFAULT_NAMESPACE\<close> otherwise, and the API service makes its calls
  on the cluster in exactly that namespace.
\<close>

lemma getNamespace_rule:
  "getNamespace E p = effective_namespace p (Getenv E ''DEFAULT_NAMESPACE'')"
  "getNamespace_dashboard D p = effective_namespace p (dash_Getenv D ''DEFAULT_NAMESPACE'')"
  by (simp_all add: getNamespace_def getNamespace_dashboard_def effective_namespace_def)

lemma api_calls_in_namespace:
  assumes "Method r = MethodGet"
    and ns: "ns = effective_namespace (Query_Get (Query r) ''namespace'')
                    (Getenv E ''DEFAULT_NAMESPACE'')"
  shows "snd (api_handler E Jobs r) = [JobsList ns empty_opts]"
    and "ns \<noteq> [] \<Longrightarrow> Query_Get (Query r) ''name'' \<noteq> [] \<Longrightarrow>
         \<exists>rest. snd (api_handler E JobsDetails r) =
                  JobsGet ns (Query_Get (Query r) ''name'') # rest \<and>
                (\<forall>c \<in> set rest. call_namespace c = ns)"
    and "ns \<noteq> [] \<Longrightarrow> Query_Get (Query r) ''pod'' \<noteq> [] \<Longrightarrow>
         snd (api_handler E PodLogs r) = [PodsGetLogs ns (Query_Get (Query r) ''pod'')]"
proof -
  have g: "getNamespace E (Query_Get (Query r) ''namespace'') = ns"
    by (simp add: ns getNamespace_rule)
  show "snd (api_handler E Jobs r) = [JobsList ns empty_opts]"
    using assms(1) by (simp add: g listJobs_calls)
  show "\<exists>rest. snd (api_handler E JobsDetails r) =
                  JobsGet ns (Query_Get (Query r) ''name'') # rest \<and>
                (\<forall>c \<in> set rest. call_namespace c = ns)"
    if "ns \<noteq> []" "Query_Get (Query r) ''name'' \<noteq> []"
    using assms(1) that by (auto simp: g jobDetails_def Let_def split: sum.splits)
  show "snd (api_handler E PodLogs r) = [PodsGetLogs ns (Query_Get (Query r) ''pod'')]"
    if "ns \<noteq> []" "Query_Get (Query r) ''pod'' \<noteq> []"
    using assms(1) that by (auto simp: g podLogs_def Let_def split: sum.splits)
qed

text \<open>
  The dashboard writes the namespace and the other parameters into the URL of the
  backend as they are, without escaping them.
\<close>

lemma dashboard_urls:
  "snd (frontend_jobs D f) =
     [backend D @ ''/jobs?namespace='' @
      effective_namespace (FormValue f ''namespace'') (dash_Getenv D ''DEFAULT_NAMESPACE'')]"
  "snd (frontend_job_details D f) =
     [backend D @ ''/jobs/details?namespace='' @
      effective_namespace (FormValue f ''namespace'') (dash_Getenv D ''DEFAULT_NAMESPACE'') @
      ''&name='' @ FormValue f ''name'']"
  "snd (frontend_pod_logs D f) =
     [backend D @ ''/pod/logs?pod='' @ FormValue f ''pod'' @ ''&namespace='' @
      effective_namespace (FormValue f ''namespace'') (dash_Getenv D ''DEFAULT_NAMESPACE'')]"
  by (simp_all add: frontend_jobs_def frontend_job_details_def frontend_pod_logs_def
      getNamespace_rule [symmetric] Let_def split: sum.splits)

text \<open>
  C7. The namespace the dashboard passes on is not always the namespace of the request.
  A request to \<open>/frontend/pod/logs\<close> with the namespace \<open>team-a\<close> and the pod
  \<open>p&namespace=kube-system\<close> is fetched from the backend as
  \<open>/pod/logs?pod=p&namespace=kube-system&namespace=team-a\<close>, because the URL is built
  without escaping and with the pod first; the API service reads the first value of
  \<open>namespace\<close> and asks the cluster for the logs of pod \<open>p\<close> in \<open>kube-system\<close>.
\<close>

theorem pod_parameter_redirects_namespace:
  "FormValue injected_form ''namespace'' = ''team-a'' \<and>
   snd (dash_handler demo_dash FrontendPodLogs injected_form) =
     [''http://localhost:8080'' @ api_pattern PodLogs @
      ''?pod=p&namespace=kube-system&namespace=team-a''] \<and>
   ParseQuery (RawQuery (''http://localhost:8080'' @ api_pattern PodLogs @
      ''?pod=p&namespace=kube-system&namespace=team-a'')) =
     [(''pod'', ''p''), (''namespace'', ''kube-system''), (''namespace'', ''team-a'')] \<and>
   snd (api_handler demo_env PodLogs
          \<lparr>Method = ''GET'',
           Query = ParseQuery (RawQuery (''http://localhost:8080'' @ api_pattern PodLogs @
             ''?pod=p&namespace=kube-system&namespace=team-a''))\<rparr>) =
     [PodsGetLogs ''kube-system'' ''p'']"
  by code_simp

section \<open>The view of job details\<close>

text \<open>
  In range, \<open>Sub\<close> is the difference and \<open>Round(time.Second)\<close> is the nearest whole
  second.
\<close>

lemma wrap64_id: "fits64 y \<Longrightarrow> wrap64 y = y"
  unfolding fits64_def wrap64_def by simp

lemma Time_Sub_exact: "fits64 (t - u) \<Longrightarrow> Time_Sub t u = t - u"
  by (simp add: Time_Sub_def wrap64_id)

lemma div_shift_down:
  fixes q :: int
  assumes "0 \<le> r" "0 \<le> h" "r + h < m"
  shows "(q * m + r + h) div m = q"
proof -
  have "(q * m + r + h) div m = ((r + h) + q * m) div m" by (simp add: algebra_simps)
  also have "\<dots> = (r + h) div m + q" using assms by (subst div_mult_self1) auto
  also have "(r + h) div m = 0" using assms by (simp add: div_pos_pos_trivial)
  finally show ?thesis by simp
qed

lemma div_shift_up:
  fixes q :: int
  assumes "r < m" "h < m" "m \<le> r + h"
  shows "(q * m + r + h) div m = q + 1"
proof -
  have e: "q * m + r + h = (q + 1) * m + (r + h - m) + 0" by (simp add: algebra_simps)
  have "((q + 1) * m + (r + h - m) + 0) div m = q + 1"
    using assms by (intro div_shift_down) auto
  then show ?thesis by (simp only: e)
qed

lemma nearest_nonneg:
  assumes "0 \<le> (x::int)"
  shows "nearest_second x =
    (if 2 * (x mod 1000000000) < 1000000000 then x - x mod 1000000000
     else x + 1000000000 - x mod 1000000000)"
proof -
  define m :: int where "m = 1000000000"
  define h :: int where "h = 500000000"
  define q where "q = x div m"
  define r where "r = x mod m"
  have x: "x = q * m + r" by (simp add: q_def r_def)
  have r: "0 \<le> r" "r < m" by (simp_all add: r_def m_def)
  have hm: "0 \<le> h" "h < m" "2 * h = m" by (simp_all add: h_def m_def)
  have n: "nearest_second x = (q * m + r + h) div m * m"
    using assms by (simp add: nearest_second_def x m_def h_def)
  have goal: "(q * m + r + h) div m * m = (if 2 * r < m then x - r else x + m - r)"
  proof (cases "2 * r < m")
    case True
    then have "(q * m + r + h) div m = q" using r hm by (intro div_shift_down) auto
    with True show ?thesis by (simp add: x)
  next
    case False
    then have "(q * m + r + h) div m = q + 1" using r hm by (intro div_shift_up) auto
    with False show ?thesis by (simp add: x algebra_simps)
  qed
  show ?thesis unfolding n goal by (simp add: r_def m_def)
qed

lemma nearest_neg: "x < 0 \<Longrightarrow> nearest_second x = - nearest_second (- x)"
  by (simp add: nearest_second_def)

lemma go_rem_nonneg: "0 \<le> a \<Longrightarrow> 0 < b \<Longrightarrow> go_rem a b = a mod b"
  by (cases "a = 0") (simp_all add: go_rem_def)

lemma go_rem_neg: "a < 0 \<Longrightarrow> 0 < b \<Longrightarrow> - go_rem a b = (- a) mod b"
  by (simp add: go_rem_def)

lemma lessThanHalf_small:
  assumes "0 \<le> r" and "r < 1000000000"
  shows "lessThanHalf r Second = (2 * r < 1000000000)"
proof -
  have "(r + r) mod 18446744073709551616 = r + r"
    using assms by (intro mod_pos_pos_trivial) auto
  moreover have "Second mod 18446744073709551616 = 1000000000"
    by (simp add: Second_def)
  ultimately show ?thesis by (simp add: lessThanHalf_def)
qed

lemma round_nonneg:
  assumes "0 \<le> x" and "fits64 (nearest_second x)"
  shows "Duration_Round x Second = nearest_second x"
proof -
  let ?r = "x mod 1000000000"
  have r: "0 \<le> ?r" "?r < 1000000000" by simp_all
  have pos: "\<not> Second \<le> 0" by (simp add: Second_def)
  have rem: "go_rem x Second = ?r" using assms(1) by (simp add: go_rem_nonneg Second_def)
  have half: "lessThanHalf ?r Second = (2 * ?r < 1000000000)"
    using r by (rule lessThanHalf_small)
  have S: "x + Second - ?r = x + 1000000000 - ?r" by (simp add: Second_def)
  have run: "Duration_Round x Second =
      (if 2 * ?r < 1000000000 then wrap64 (x - ?r)
       else if x < wrap64 (x + 1000000000 - ?r) then wrap64 (x + 1000000000 - ?r)
       else maxDuration)"
    using assms(1) by (simp add: Duration_Round_def Let_def pos rem half S)
  show ?thesis
  proof (cases "2 * ?r < 1000000000")
    case True
    then have n: "nearest_second x = x - ?r" using assms(1) by (simp add: nearest_nonneg)
    with assms(2) have "wrap64 (x - ?r) = x - ?r" by (simp add: wrap64_id)
    with True n show ?thesis by (simp add: run)
  next
    case False
    then have n: "nearest_second x = x + 1000000000 - ?r"
      using assms(1) by (simp add: nearest_nonneg)
    with assms(2) have w: "wrap64 (x + 1000000000 - ?r) = x + 1000000000 - ?r"
      by (simp add: wrap64_id)
    have "x < x + 1000000000 - ?r" using r by simp
    with False n w show ?thesis by (simp add: run)
  qed
qed

lemma round_neg:
  assumes "x < 0" and "fits64 (nearest_second x)"
  shows "Duration_Round x Second = nearest_second x"
proof -
  let ?r = "(- x) mod 1000000000"
  have r: "0 \<le> ?r" "?r < 1000000000" by simp_all
  have pos: "\<not> Second \<le> 0" by (simp add: Second_def)
  have rem: "- go_rem x Second = ?r" using assms(1) by (simp add: go_rem_neg Second_def)
  have half: "lessThanHalf ?r Second = (2 * ?r < 1000000000)"
    using r by (rule lessThanHalf_small)
  have S: "x - Second + ?r = x - 1000000000 + ?r" by (simp add: Second_def)
  have run: "Duration_Round x Second =
      (if 2 * ?r < 1000000000 then wrap64 (x + ?r)
       else if wrap64 (x - 1000000000 + ?r) < x then wrap64 (x - 1000000000 + ?r)
       else minDuration)"
    using assms(1) by (simp add: Duration_Round_def Let_def pos rem half S)
  have neg: "nearest_second x = - nearest_second (- x)"
    using assms(1) by (rule nearest_neg)
  show ?thesis
  proof (cases "2 * ?r < 1000000000")
    case True
    then have n: "nearest_second x = x + ?r"
      using assms(1) by (simp add: neg nearest_nonneg)
    with assms(2) have "wrap64 (x + ?r) = x + ?r" by (simp add: wrap64_id)
    with True n show ?thesis by (simp add: run)
  next
    case False
    then have n: "nearest_second x = x - 1000000000 + ?r"
      using assms(1) by (simp add: neg nearest_nonneg)
    with assms(2) have w: "wrap64 (x - 1000000000 + ?r) = x - 1000000000 + ?r"
      by (simp add: wrap64_id)
    have "x - 1000000000 + ?r < x" using r by simp
    with False n w show ?thesis by (simp add: run)
  qed
qed

lemma nearest_close: "\<bar>nearest_second x - x\<bar> \<le> 500000000"
proof (cases "0 \<le> x")
  case True
  have "0 \<le> x mod 1000000000" "x mod 1000000000 < 1000000000" by simp_all
  with True show ?thesis by (simp add: nearest_nonneg split: if_splits)
next
  case False
  have "0 \<le> (- x) mod 1000000000" "(- x) mod 1000000000 < 1000000000" by simp_all
  with False show ?thesis by (simp add: nearest_neg nearest_nonneg split: if_splits)
qed

lemma nearest_multiple: "nearest_second x mod 1000000000 = 0"
  by (simp add: nearest_second_def)

lemma multiple_le:
  fixes n :: int
  assumes "n mod 1000000000 = 0" and "n \<le> 9223372036854775808"
  shows "n \<le> 9223372036000000000"
proof -
  from assms(2) have "n div 1000000000 \<le> 9223372036854775808 div 1000000000"
    by (rule zdiv_mono1) simp
  then have "n div 1000000000 \<le> 9223372036" by simp
  moreover from assms(1) have "n = n div 1000000000 * 1000000000"
    using div_mult_mod_eq [of n 1000000000] by simp
  ultimately show ?thesis by linarith
qed

lemma fits64_nearest: "fits64 (nearest_second x) \<Longrightarrow> fits64 x"
proof -
  assume f: "fits64 (nearest_second x)"
  have m: "nearest_second x mod 1000000000 = 0" by (rule nearest_multiple)
  then have m': "(- nearest_second x) mod 1000000000 = 0"
    by (simp add: mod_eq_0_iff_dvd)
  from f have "nearest_second x \<le> 9223372036000000000"
    unfolding fits64_def by (intro multiple_le [OF m]) simp
  moreover from f have "- nearest_second x \<le> 9223372036000000000"
    unfolding fits64_def by (intro multiple_le [OF m']) simp
  ultimately show ?thesis
    using nearest_close [of x] unfolding fits64_def by linarith
qed

lemma Round_Sub:
  assumes "fits64 (nearest_second (c - s))"
  shows "Duration_Round (Time_Sub c s) Second = nearest_second (c - s)"
proof -
  from assms have "fits64 (c - s)" by (rule fits64_nearest)
  then have "Time_Sub c s = c - s" by (rule Time_Sub_exact)
  with assms show ?thesis
    by (cases "0 \<le> c - s") (simp_all add: round_nonneg round_neg)
qed

text \<open>
  Out of range, \<open>Sub\<close> returns the largest or the smallest duration, and \<open>Round\<close>
  returns the largest or the smallest duration where the nearest second does not fit.
\<close>

lemma wrap64_fits: "fits64 (wrap64 x)"
proof -
  have "0 \<le> (x + 9223372036854775808) mod 18446744073709551616"
    and "(x + 9223372036854775808) mod 18446744073709551616 < 18446744073709551616"
    by simp_all
  then show ?thesis unfolding fits64_def wrap64_def by linarith
qed

lemma wrap64_over:
  assumes "9223372036854775808 \<le> v" and "v < 27670116110564327424"
  shows "wrap64 v = v - 18446744073709551616"
proof -
  have "(v + 9223372036854775808) mod 18446744073709551616 =
      (v - 9223372036854775808 + 18446744073709551616) mod 18446744073709551616"
    by (simp add: algebra_simps)
  also have "\<dots> = (v - 9223372036854775808) mod 18446744073709551616"
    by (rule mod_add_self2)
  also have "\<dots> = v - 9223372036854775808"
    using assms by (intro mod_pos_pos_trivial) auto
  finally show ?thesis by (simp add: wrap64_def)
qed

lemma wrap64_under:
  assumes "- 27670116110564327424 \<le> v" and "v < - 9223372036854775808"
  shows "wrap64 v = v + 18446744073709551616"
proof -
  have "(v + 9223372036854775808) mod 18446744073709551616 =
      (v + 9223372036854775808 + 18446744073709551616) mod 18446744073709551616"
    by (rule mod_add_self2 [symmetric])
  also have "\<dots> = v + 9223372036854775808 + 18446744073709551616"
    using assms by (intro mod_pos_pos_trivial) auto
  finally show ?thesis by (simp add: wrap64_def)
qed

lemma Time_Sub_saturates:
  assumes "\<not> fits64 (c - s)"
  shows "Time_Sub c s = (if c < s then minDuration else maxDuration)"
proof -
  have "wrap64 (c - s) \<noteq> c - s"
    using assms wrap64_fits [of "c - s"] by auto
  then have "s + wrap64 (c - s) \<noteq> c" by linarith
  then show ?thesis by (simp add: Time_Sub_def Let_def)
qed

lemma Round_run_nonneg:
  assumes "0 \<le> x"
  shows "Duration_Round x Second =
      (if 2 * (x mod 1000000000) < 1000000000 then wrap64 (x - x mod 1000000000)
       else if x < wrap64 (x + 1000000000 - x mod 1000000000)
            then wrap64 (x + 1000000000 - x mod 1000000000)
       else maxDuration)"
proof -
  let ?r = "x mod 1000000000"
  have r: "0 \<le> ?r" "?r < 1000000000" by simp_all
  have pos: "\<not> Second \<le> 0" by (simp add: Second_def)
  have rem: "go_rem x Second = ?r" using assms by (simp add: go_rem_nonneg Second_def)
  have half: "lessThanHalf ?r Second = (2 * ?r < 1000000000)"
    using r by (rule lessThanHalf_small)
  have S: "x + Second - ?r = x + 1000000000 - ?r" by (simp add: Second_def)
  show ?thesis
    using assms by (simp add: Duration_Round_def Let_def pos rem half S)
qed

lemma Round_run_neg:
  assumes "x < 0"
  shows "Duration_Round x Second =
      (if 2 * ((- x) mod 1000000000) < 1000000000 then wrap64 (x + (- x) mod 1000000000)
       else if wrap64 (x - 1000000000 + (- x) mod 1000000000) < x
            then wrap64 (x - 1000000000 + (- x) mod 1000000000)
       else minDuration)"
proof -
  let ?r = "(- x) mod 1000000000"
  have r: "0 \<le> ?r" "?r < 1000000000" by simp_all
  have pos: "\<not> Second \<le> 0" by (simp add: Second_def)
  have rem: "- go_rem x Second = ?r" using assms by (simp add: go_rem_neg Second_def)
  have half: "lessThanHalf ?r Second = (2 * ?r < 1000000000)"
    using r by (rule lessThanHalf_small)
  have S: "x - Second + ?r = x - 1000000000 + ?r" by (simp add: Second_def)
  show ?thesis
    using assms by (simp add: Duration_Round_def Let_def pos rem half S)
qed

lemma Round_saturates_up:
  assumes "0 \<le> x" and "fits64 x" and "\<not> fits64 (nearest_second x)"
  shows "Duration_Round x Second = maxDuration"
proof -
  let ?r = "x mod 1000000000"
  have r: "0 \<le> ?r" "?r < 1000000000" by simp_all
  have half: "\<not> 2 * ?r < 1000000000"
  proof
    assume "2 * ?r < 1000000000"
    then have "nearest_second x = x - ?r" using assms(1) by (simp add: nearest_nonneg)
    with r assms(1,2) have "fits64 (nearest_second x)" unfolding fits64_def by linarith
    with assms(3) show False by simp
  qed
  then have n: "nearest_second x = x + 1000000000 - ?r"
    using assms(1) by (simp add: nearest_nonneg)
  with assms r have big: "9223372036854775808 \<le> x + 1000000000 - ?r"
    unfolding fits64_def by linarith
  have "x + 1000000000 - ?r < 27670116110564327424"
    using assms(2) r unfolding fits64_def by linarith
  with big have "wrap64 (x + 1000000000 - ?r) = x + 1000000000 - ?r - 18446744073709551616"
    by (rule wrap64_over)
  with r have "\<not> x < wrap64 (x + 1000000000 - ?r)" by linarith
  with half show ?thesis by (simp add: Round_run_nonneg [OF assms(1)])
qed

lemma Round_saturates_down:
  assumes "x < 0" and "fits64 x" and "\<not> fits64 (nearest_second x)"
  shows "Duration_Round x Second = minDuration"
proof -
  let ?r = "(- x) mod 1000000000"
  have r: "0 \<le> ?r" "?r < 1000000000" by simp_all
  have neg: "nearest_second x = - nearest_second (- x)"
    using assms(1) by (rule nearest_neg)
  have half: "\<not> 2 * ?r < 1000000000"
  proof
    assume "2 * ?r < 1000000000"
    then have "nearest_second x = x + ?r" using assms(1) by (simp add: neg nearest_nonneg)
    with r assms(1,2) have "fits64 (nearest_second x)" unfolding fits64_def by linarith
    with assms(3) show False by simp
  qed
  then have n: "nearest_second x = x - 1000000000 + ?r"
    using assms(1) by (simp add: neg nearest_nonneg)
  with assms r have small: "x - 1000000000 + ?r < - 9223372036854775808"
    unfolding fits64_def by linarith
  have "- 27670116110564327424 \<le> x - 1000000000 + ?r"
    using assms(2) r unfolding fits64_def by linarith
  then have "wrap64 (x - 1000000000 + ?r) = x - 1000000000 + ?r + 18446744073709551616"
    using small by (rule wrap64_under)
  with r have "\<not> wrap64 (x - 1000000000 + ?r) < x" by linarith
  with half show ?thesis by (simp add: Round_run_neg [OF assms(1)])
qed

lemma nearest_max: "\<not> fits64 (nearest_second maxDuration)"
  by (simp add: nearest_second_def maxDuration_def fits64_def)

lemma nearest_min: "\<not> fits64 (nearest_second minDuration)"
  by (simp add: nearest_second_def minDuration_def fits64_def)

lemma Round_Sub_saturates:
  assumes "\<not> fits64 (nearest_second (c - s))"
  shows "Duration_Round (Time_Sub c s) Second = (if s < c then maxDuration else minDuration)"
proof (cases "fits64 (c - s)")
  case True
  then have sub: "Time_Sub c s = c - s" by (rule Time_Sub_exact)
  have "c - s \<noteq> 0" using assms by (auto simp: nearest_second_def fits64_def)
  then consider "0 \<le> c - s" "s < c" | "c - s < 0" "\<not> s < c" by linarith
  then show ?thesis
  proof cases
    case 1
    with True assms show ?thesis by (simp add: sub Round_saturates_up)
  next
    case 2
    with True assms show ?thesis by (simp add: sub Round_saturates_down)
  qed
next
  case False
  then have sub: "Time_Sub c s = (if c < s then minDuration else maxDuration)"
    by (rule Time_Sub_saturates)
  have max: "Duration_Round maxDuration Second = maxDuration"
    by (rule Round_saturates_up [OF _ _ nearest_max])
      (simp_all add: maxDuration_def fits64_def)
  have min: "Duration_Round minDuration Second = minDuration"
    by (rule Round_saturates_down [OF _ _ nearest_min])
      (simp_all add: minDuration_def fits64_def)
  from False have "c \<noteq> s" by (auto simp: fits64_def)
  with sub max min show ?thesis by auto
qed

lemma Duration_String_nonempty: "Duration_String d \<noteq> []"
proof -
  obtain f3 v3 where f3: "fmtFrac \<bar>d\<bar> 3 = (f3, v3)" by (cases "fmtFrac \<bar>d\<bar> 3")
  obtain f6 v6 where f6: "fmtFrac \<bar>d\<bar> 6 = (f6, v6)" by (cases "fmtFrac \<bar>d\<bar> 6")
  obtain f9 v9 where f9: "fmtFrac \<bar>d\<bar> 9 = (f9, v9)" by (cases "fmtFrac \<bar>d\<bar> 9")
  have a: "(if c then x else y) \<noteq> ([]::string)" if "x \<noteq> []" "y \<noteq> []" for c x y
    using that by simp
  have b: "p @ q @ r \<noteq> []" if "r \<noteq> []" for p q r :: string using that by simp
  have c: "p @ q \<noteq> []" if "q \<noteq> []" for p q :: string using that by simp
  show ?thesis
    unfolding Duration_String_def Let_def f3 f6 f9 prod.case
    by (intro a b c) simp_all
qed

lemma details_view_Duration:
  "Duration (details_view D d) =
     (case StartTime (DetailsJob d) of
        None \<Rightarrow> []
      | Some s \<Rightarrow>
          (case CompletionTime (DetailsJob d) of
             None \<Rightarrow> []
           | Some c \<Rightarrow> Duration_String (Duration_Round (Time_Sub c s) Second)))"
  by (simp add: details_view_def Let_def split: option.splits)

text \<open>
  C8, as stated, fails for a job whose two timestamps lie more than about 292 years
  apart: the difference does not fit a \<open>time.Duration\<close>, \<open>Sub\<close> returns the largest
  duration, \<open>Round\<close> cannot round it up and returns it unchanged, and the view shows
  \<open>2562047h47m16.854775807s\<close>, which is neither the difference (17733240 hours) nor a
  whole number of seconds.
\<close>

theorem duration_saturates_counterexample:
  "StartTime (DetailsJob ancient_details) = Some 0 \<and>
   CompletionTime (DetailsJob ancient_details) = Some 63839664000000000000 \<and>
   Duration (details_view demo_dash ancient_details) = ''2562047h47m16.854775807s'' \<and>
   Duration_String (nearest_second (63839664000000000000 - 0)) = ''17733240h0m0s''"
  by code_simp

text \<open>The texts of the largest and of the smallest duration.\<close>

lemma Duration_String_max: "Duration_String maxDuration = ''2562047h47m16.854775807s''"
  by code_simp

lemma Duration_String_min: "Duration_String minDuration = ''-2562047h47m16.854775808s''"
  by code_simp

text \<open>
  C8, amended. In every view of job details, \<open>Start\<close> is the RFC3339 rendering of
  \<open>StartTime\<close> when it is present and empty otherwise; \<open>Finish\<close> is the same for
  \<open>CompletionTime\<close>; \<open>Duration\<close> is empty exactly when one of the two is absent. When
  both are present, \<open>Duration\<close> is the text of their difference rounded to the nearest
  second if that rounded difference fits a 64-bit count of nanoseconds; otherwise it is
  the text of the largest duration, \<open>2562047h47m16.854775807s\<close>, when the completion is
  later than the start, and of the smallest, \<open>-2562047h47m16.854775808s\<close>, when it is
  earlier.
\<close>

theorem details_view_fields:
  "Start (details_view D d) =
     (case StartTime (DetailsJob d) of None \<Rightarrow> [] | Some t \<Rightarrow> Format_RFC3339 D t) \<and>
   Finish (details_view D d) =
     (case CompletionTime (DetailsJob d) of None \<Rightarrow> [] | Some t \<Rightarrow> Format_RFC3339 D t) \<and>
   (\<forall>s c. StartTime (DetailsJob d) = Some s \<and> CompletionTime (DetailsJob d) = Some c \<longrightarrow>
          Duration (details_view D d) =
            (if fits64 (nearest_second (c - s)) then Duration_String (nearest_second (c - s))
             else if s < c then ''2562047h47m16.854775807s''
             else ''-2562047h47m16.854775808s'')) \<and>
   (Duration (details_view D d) = []) =
     (StartTime (DetailsJob d) = None \<or> CompletionTime (DetailsJob d) = None)"
proof -
  have start: "Start (details_view D d) =
     (case StartTime (DetailsJob d) of None \<Rightarrow> [] | Some t \<Rightarrow> Format_RFC3339 D t)"
    by (simp add: details_view_def Let_def)
  have finish: "Finish (details_view D d) =
     (case CompletionTime (DetailsJob d) of None \<Rightarrow> [] | Some t \<Rightarrow> Format_RFC3339 D t)"
    by (simp add: details_view_def Let_def)
  have both: "Duration (details_view D d) =
      (if fits64 (nearest_second (c - s)) then Duration_String (nearest_second (c - s))
       else if s < c then ''2562047h47m16.854775807s''
       else ''-2562047h47m16.854775808s'')"
    if sc: "StartTime (DetailsJob d) = Some s" "CompletionTime (DetailsJob d) = Some c" for s c
  proof (cases "fits64 (nearest_second (c - s))")
    case True
    with sc show ?thesis by (simp add: details_view_Duration Round_Sub)
  next
    case False
    then have "Duration_Round (Time_Sub c s) Second =
        (if s < c then maxDuration else minDuration)"
      by (rule Round_Sub_saturates)
    with sc False show ?thesis
      by (simp add: details_view_Duration Duration_String_max Duration_String_min)
  qed
  have empty: "(Duration (details_view D d) = []) =
     (StartTime (DetailsJob d) = None \<or> CompletionTime (DetailsJob d) = None)"
    by (simp add: details_view_Duration Duration_String_nonempty split: option.splits)
  from start finish both empty show ?thesis by blast
qed

theorem details_view_fields_witness:
  "StartTime (DetailsJob timed_details) = Some 63839664000000000000 \<and>
   CompletionTime (DetailsJob timed_details) = Some 63839667723400000000 \<and>
   fits64 (nearest_second (63839667723400000000 - 63839664000000000000)) \<and>
   Duration (details_view demo_dash timed_details) = ''1h2m3s'' \<and>
   StartTime (DetailsJob early_details) = Some 63839664000000000000 \<and>
   CompletionTime (DetailsJob early_details) = Some 0 \<and>
   \<not> fits64 (nearest_second (0 - 63839664000000000000)) \<and>
   Duration (details_view demo_dash early_details) = ''-2562047h47m16.854775808s''"
proof -
  have s: "StartTime (DetailsJob timed_details) = Some 63839664000000000000"
    and c: "CompletionTime (DetailsJob timed_details) = Some 63839667723400000000"
    by (simp_all add: timed_details_def job_def)
  have f: "fits64 (nearest_second (63839667723400000000 - 63839664000000000000))"
    by (simp add: fits64_def nearest_second_def)
  have v: "Duration_String (nearest_second (63839667723400000000 - 63839664000000000000))
      = ''1h2m3s''"
    by code_simp
  from details_view_fields [of demo_dash timed_details] s c
  have "Duration (details_view demo_dash timed_details) =
      (if fits64 (nearest_second (63839667723400000000 - 63839664000000000000))
       then Duration_String (nearest_second (63839667723400000000 - 63839664000000000000))
       else if (63839664000000000000::int) < 63839667723400000000
            then ''2562047h47m16.854775807s''
       else ''-2562047h47m16.854775808s'')"
    by blast
  with f v have timed: "Duration (details_view demo_dash timed_details) = ''1h2m3s''"
    by (simp only: if_True)
  have s': "StartTime (DetailsJob early_details) = Some 63839664000000000000"
    and c': "CompletionTime (DetailsJob early_details) = Some 0"
    by (simp_all add: early_details_def job_def)
  have f': "\<not> fits64 (nearest_second (0 - 63839664000000000000))"
    by (simp add: fits64_def nearest_second_def)
  from details_view_fields [of demo_dash early_details] s' c'
  have "Duration (details_view demo_dash early_details) =
      (if fits64 (nearest_second (0 - 63839664000000000000))
       then Duration_String (nearest_second (0 - 63839664000000000000))
       else if (63839664000000000000::int) < 0 then ''2562047h47m16.854775807s''
       else ''-2562047h47m16.854775808s'')"
    by blast
  with f' have early: "Duration (details_view demo_dash early_details) =
      ''-2562047h47m16.854775808s''"
    by simp
  from s c f timed s' c' f' early show ?thesis by blast
qed

section \<open>Failures\<close>

text \<open>
  Every response of the API service that is not a 200 is a plain-text message with
  status 400, 405 or 500, and a failed \<open>http.Get\<close> of the dashboard is answered 500.
\<close>

lemma api_failures_plain_text:
  assumes "status (fst (api_handler E route r)) \<noteq> 200"
  shows "status (fst (api_handler E route r)) \<in> {400, 405, 500} \<and>
         (\<exists>msg. body (fst (api_handler E route r)) = Plain (msg @ [CHR 0x0A]))"
  using assms
  by (cases route)
    (auto simp: listJobs_def jobDetails_def podLogs_def respondJSON_def http_Error_def
      status_defs Let_def split: sum.splits option.splits if_splits)

lemma network_error_500:
  assumes "\<And>url. http_Get D url = Inl err"
  shows "fst (dash_handler D route f) = http_Error err 500"
  using assms
  by (cases route)
    (simp_all add: frontend_jobs_def frontend_job_details_def frontend_pod_logs_def
      callBackend_def Let_def)

text \<open>
  C5. The dashboard does not surface an error status of the backend. The API service
  answers \<open>GET /jobs/details?namespace=default&name=\<close> with 400 and a plain-text message;
  \<open>callBackend\<close> returns that message as the body with a nil error, the decoding fails
  and is ignored, and \<open>/frontend/job/details\<close> answers 200 with the page of an empty
  job.
\<close>

theorem backend_400_rendered_as_page:
  "fst (api_handler demo_env JobsDetails
          \<lparr>Method = ''GET'', Query = [(''namespace'', ''default''), (''name'', [])]\<rparr>) =
     http_Error ''namespace and name parameters required'' 400 \<and>
   http_Get demo_dash ''http://localhost:8080/jobs/details?namespace=default&name='' =
     Inr \<lparr>StatusCode = 400,
          ReadAll = (''namespace and name parameters required'' @ [CHR 0x0A], None)\<rparr> \<and>
   dash_handler demo_dash FrontendJobDetails \<lparr>Form = []\<rparr> =
     (\<lparr>status = 200, headers = [], body = Content (''job_details.html'', JobDetailsData zero_view)\<rparr>,
      [''http://localhost:8080/jobs/details?namespace=default&name=''])"
  by (simp add: MethodGet_def getNamespace_def Query_Get_def demo_env_def status_defs
      demo_dash_def frontend_job_details_def getNamespace_dashboard_def FormValue_def
      backend_def callBackend_def ExecuteTemplate_def details_view_def zero_JobDetails_def
      zero_Job_def zero_view_def Let_def)

text \<open>The view of details that were never decoded has no job, no pods and no times.\<close>

lemma details_view_zero: "details_view D zero_JobDetails = zero_view"
  by (simp add: details_view_def zero_JobDetails_def zero_Job_def zero_view_def)

text \<open>
  C10. Whenever \<open>http.Get\<close> itself succeeds, \<open>callBackend\<close> returns the bytes read from
  the body and no error, whatever the status code of the reply and whether or not the
  reading ended in an error. On each of the three dashboard routes, a reply whose body
  is not valid JSON is then answered with status 200 and the page of the zero value: no
  jobs, the empty job details, empty logs.
\<close>

theorem invalid_json_rendered:
  assumes "http_Get D url = Inr resp"
  shows "callBackend D url = Inr (fst (ReadAll resp)) \<and>
    (url = backend D @ ''/jobs?namespace='' @ getNamespace_dashboard D (FormValue f ''namespace'') \<and>
     Unmarshal_JobListResponse D (fst (ReadAll resp)) = SyntaxError \<longrightarrow>
       fst (dash_handler D FrontendJobs f) =
         \<lparr>status = 200, headers = [], body = Content (''job_list.html'', JobListData [])\<rparr>) \<and>
    (url = backend D @ ''/jobs/details?namespace='' @
             getNamespace_dashboard D (FormValue f ''namespace'') @ ''&name='' @ FormValue f ''name'' \<and>
     Unmarshal_JobDetails D (fst (ReadAll resp)) = SyntaxError \<longrightarrow>
       fst (dash_handler D FrontendJobDetails f) =
         \<lparr>status = 200, headers = [],
          body = Content (''job_details.html'', JobDetailsData zero_view)\<rparr>) \<and>
    (url = backend D @ ''/pod/logs?pod='' @ FormValue f ''pod'' @ ''&namespace='' @
             getNamespace_dashboard D (FormValue f ''namespace'') \<and>
     Unmarshal_Logs D (fst (ReadAll resp)) = SyntaxError \<longrightarrow>
       fst (dash_handler D FrontendPodLogs f) =
         \<lparr>status = 200, headers = [],
          body = Content (''pod_logs.html'',
                   PodLogsData (getNamespace_dashboard D (FormValue f ''namespace''))
                     (FormValue f ''pod'') [])\<rparr>)"
proof -
  have cb: "callBackend D url = Inr (fst (ReadAll resp))"
    using assms by (simp add: callBackend_def)
  have j: "fst (dash_handler D FrontendJobs f) =
         \<lparr>status = 200, headers = [], body = Content (''job_list.html'', JobListData [])\<rparr>"
    if "url = backend D @ ''/jobs?namespace='' @ getNamespace_dashboard D (FormValue f ''namespace'')"
      "Unmarshal_JobListResponse D (fst (ReadAll resp)) = SyntaxError"
    using that cb by (simp add: frontend_jobs_def ExecuteTemplate_def StatusOK_def Let_def)
  have d: "fst (dash_handler D FrontendJobDetails f) =
         \<lparr>status = 200, headers = [],
          body = Content (''job_details.html'', JobDetailsData zero_view)\<rparr>"
    if "url = backend D @ ''/jobs/details?namespace='' @
             getNamespace_dashboard D (FormValue f ''namespace'') @ ''&name='' @ FormValue f ''name''"
      "Unmarshal_JobDetails D (fst (ReadAll resp)) = SyntaxError"
    using that cb
    by (simp add: frontend_job_details_def ExecuteTemplate_def StatusOK_def Let_def
        details_view_zero)
  have l: "fst (dash_handler D FrontendPodLogs f) =
         \<lparr>status = 200, headers = [],
          body = Content (''pod_logs.html'',
                   PodLogsData (getNamespace_dashboard D (FormValue f ''namespace''))
                     (FormValue f ''pod'') [])\<rparr>"
    if "url = backend D @ ''/pod/logs?pod='' @ FormValue f ''pod'' @ ''&namespace='' @
             getNamespace_dashboard D (FormValue f ''namespace'')"
      "Unmarshal_Logs D (fst (ReadAll resp)) = SyntaxError"
    using that cb by (simp add: frontend_pod_logs_def ExecuteTemplate_def StatusOK_def Let_def)
  from cb j d l show ?thesis by blast
qed

theorem invalid_json_rendered_witness:
  "http_Get demo_dash ''http://localhost:8080/pod/logs?pod=p&namespace=default'' =
     Inr \<lparr>StatusCode = 400,
          ReadAll = (''namespace and name parameters required'' @ [CHR 0x0A], None)\<rparr> \<and>
   Unmarshal_Logs demo_dash (''namespace and name parameters required'' @ [CHR 0x0A])
     = SyntaxError \<and>
   callBackend demo_dash ''http://localhost:8080/pod/logs?pod=p&namespace=default'' =
     Inr (''namespace and name parameters required'' @ [CHR 0x0A]) \<and>
   fst (dash_handler demo_dash FrontendPodLogs \<lparr>Form = [(''pod'', ''p'')]\<rparr>) =
     \<lparr>status = 200, headers = [],
      body = Content (''pod_logs.html'', PodLogsData ''default'' ''p'' [])\<rparr>"
proof -
  let ?url = "''http://localhost:8080/pod/logs?pod=p&namespace=default''"
  let ?resp = "\<lparr>StatusCode = 400,
          ReadAll = (''namespace and name parameters required'' @ [CHR 0x0A], None)\<rparr>"
  let ?f = "\<lparr>Form = [(''pod'', ''p'')]\<rparr>"
  have g: "http_Get demo_dash ?url = Inr ?resp" by (simp add: demo_dash_def)
  have u: "?url = backend demo_dash @ ''/pod/logs?pod='' @ FormValue ?f ''pod'' @
      ''&namespace='' @ getNamespace_dashboard demo_dash (FormValue ?f ''namespace'')"
    by (simp add: backend_def demo_dash_def FormValue_def Query_Get_def
        getNamespace_dashboard_def)
  have n: "getNamespace_dashboard demo_dash (FormValue ?f ''namespace'') = ''default''"
    "FormValue ?f ''pod'' = ''p''"
    by (simp_all add: demo_dash_def FormValue_def Query_Get_def getNamespace_dashboard_def)
  have e: "Unmarshal_Logs demo_dash (fst (ReadAll ?resp)) = SyntaxError"
    by (simp add: demo_dash_def)
  note th = invalid_json_rendered [OF g, of ?f]
  from th have cb: "callBackend demo_dash ?url = Inr (fst (ReadAll ?resp))" by blast
  from th u e have page: "fst (dash_handler demo_dash FrontendPodLogs ?f) =
      \<lparr>status = 200, headers = [],
       body = Content (''pod_logs.html'',
                PodLogsData (getNamespace_dashboard demo_dash (FormValue ?f ''namespace''))
                  (FormValue ?f ''pod'') [])\<rparr>"
    by blast
  have e': "Unmarshal_Logs demo_dash (''namespace and name parameters required'' @ [CHR 0x0A])
      = SyntaxError"
    using e by simp
  have cb': "callBackend demo_dash ?url =
      Inr (''namespace and name parameters required'' @ [CHR 0x0A])"
    using cb by simp
  from g e' cb' page show ?thesis by (simp only: n simp_thms)
qed

section \<open>Serving result files\<close>

text \<open>
  A path that is not of the shape \<open>/pw/<uid>/<path>\<close> is answered 404 by the handler
  itself or by \<open>http.StripPrefix\<close>.
\<close>

lemma SplitN2_no_sep:
  "CHR ''/'' \<notin> set s \<Longrightarrow> SplitN s (CHR ''/'') 2 = [s]"
  by (simp add: numeral_2_eq_2)

lemma SplitN2_sep:
  "CHR ''/'' \<in> set s \<Longrightarrow>
   SplitN s (CHR ''/'') 2 =
     [takeWhile (\<lambda>x. x \<noteq> CHR ''/'') s, tl (dropWhile (\<lambda>x. x \<noteq> CHR ''/'') s)]"
  by (simp add: numeral_2_eq_2)

lemma pw_unshaped_404:
  assumes "\<not> pw_shaped (Path u)"
  shows "pw_handler u = http_NotFound"
proof (cases "prefix ''/pw/'' (Path u)")
  case True
  then have trim: "TrimPrefix (Path u) ''/pw/'' = drop 4 (Path u)"
    by (simp add: TrimPrefix_def eval_nat_numeral)
  from True assms have "CHR ''/'' \<notin> set (drop 4 (Path u))" by (simp add: pw_shaped_def)
  then show ?thesis
    by (simp add: pw_handler_def trim SplitN2_no_sep)
next
  case False
  let ?p = "Path u"
  have trim: "TrimPrefix ?p ''/pw/'' = ?p" using False by (simp add: TrimPrefix_def)
  show ?thesis
  proof (cases "CHR ''/'' \<in> set ?p")
    case no: False
    then show ?thesis by (simp add: pw_handler_def trim SplitN2_no_sep)
  next
    case True
    let ?uid = "takeWhile (\<lambda>x. x \<noteq> CHR ''/'') ?p"
    have "\<not> prefix (''/pw/'' @ ?uid @ ''/'') ?p"
      using False by (auto simp: prefix_def)
    then have "TrimPrefix ?p (''/pw/'' @ ?uid @ ''/'') = ?p"
      by (simp add: TrimPrefix_def)
    then show ?thesis
      using True by (simp add: pw_handler_def trim SplitN2_sep StripPrefix_def Let_def)
  qed
qed


text \<open>
  Cleaning a rooted path leaves proper names only, and joining a clean rooted directory
  with a clean rooted name puts the elements of the name behind those of the directory.
\<close>

lemma split_slash_nonempty: "split_slash p \<noteq> []"
  by (induction p) (auto split: list.splits)

lemma split_slash_no_slash: "e \<in> set (split_slash p) \<Longrightarrow> CHR ''/'' \<notin> set e"
  by (induction p arbitrary: e) (auto split: list.splits if_splits)

lemma split_slash_single: "CHR ''/'' \<notin> set x \<Longrightarrow> split_slash x = [x]"
  by (induction x) auto

lemma split_slash_append:
  "split_slash (a @ CHR ''/'' # b) = split_slash a @ split_slash b"
proof (induction a)
  case Nil
  show ?case by simp
next
  case (Cons x a)
  obtain w ws where w: "split_slash a = w # ws"
    using split_slash_nonempty [of a] by (cases "split_slash a") auto
  with Cons show ?case by simp
qed

lemma split_join:
  "xs \<noteq> [] \<Longrightarrow> \<forall>e \<in> set xs. CHR ''/'' \<notin> set e \<Longrightarrow> split_slash (join_slash xs) = xs"
proof (induction xs rule: join_slash.induct)
  case 1
  then show ?case by simp
next
  case (2 x)
  then show ?case by (simp add: split_slash_single)
next
  case (3 x y ys)
  then show ?case by (simp add: split_slash_append split_slash_single)
qed

lemma clean_elems_plain:
  "\<forall>e \<in> set st. plain e \<Longrightarrow> \<forall>e \<in> set es. CHR ''/'' \<notin> set e \<Longrightarrow>
   \<forall>e \<in> set (clean_elems True st es). plain e"
proof (induction es arbitrary: st)
  case Nil
  then show ?case by simp
next
  case (Cons e es)
  show ?case
  proof (cases "e = [] \<or> e = ''.''")
    case True
    with Cons show ?thesis by auto
  next
    case skip: False
    show ?thesis
    proof (cases "e = ''..''")
      case True
      show ?thesis
      proof (cases st)
        case Nil
        with True Cons.IH [of "[]"] Cons.prems(2) show ?thesis by auto
      next
        case (Cons t ts)
        with Cons.prems(1) have "t \<noteq> ''..''" "\<forall>e \<in> set ts. plain e"
          by (auto simp: plain_def)
        with True Cons Cons.IH [of ts] Cons.prems(2) show ?thesis by auto
      qed
    next
      case False
      with skip Cons.prems have "\<forall>x \<in> set (e # st). plain x" by (auto simp: plain_def)
      with Cons.IH [of "e # st"] Cons.prems(2) skip False show ?thesis by auto
    qed
  qed
qed

lemma clean_elems_append:
  "clean_elems r st (xs @ ys) = clean_elems r (rev (clean_elems r st xs)) ys"
  by (induction xs arbitrary: st) (auto split: list.splits)

lemma clean_elems_id:
  "\<forall>e \<in> set es. plain e \<Longrightarrow> clean_elems r st es = rev st @ es"
  by (induction es arbitrary: st) (auto simp: plain_def)

lemma clean_split_join:
  assumes "\<forall>e \<in> set xs. plain e"
  shows "clean_elems True st (split_slash (join_slash xs)) = rev st @ xs"
proof (cases "xs = []")
  case True
  then show ?thesis by simp
next
  case False
  with assms have "split_slash (join_slash xs) = xs"
    by (intro split_join) (auto simp: plain_def)
  with assms show ?thesis by (simp add: clean_elems_id)
qed

lemma path_Clean_rooted:
  "path_Clean (CHR ''/'' # q) = CHR ''/'' # join_slash (clean_elems True [] (split_slash q))"
  by (simp add: path_Clean_def)

lemma rooted_plain: "\<forall>e \<in> set (clean_elems True [] (split_slash q)). plain e"
  by (rule clean_elems_plain) (auto dest: split_slash_no_slash)

lemma elems_rooted:
  assumes "\<forall>e \<in> set xs. plain e"
  shows "elems (CHR ''/'' # join_slash xs) = xs"
proof (cases "xs = []")
  case True
  then show ?thesis by (simp add: elems_def)
next
  case False
  with assms have "split_slash (join_slash xs) = xs"
    by (intro split_join) (auto simp: plain_def)
  moreover from assms have "filter (\<lambda>e. e \<noteq> []) xs = xs"
    by (auto simp: plain_def intro: filter_True)
  ultimately show ?thesis by (simp add: elems_def)
qed

lemma Join_rooted:
  assumes R: "\<forall>e \<in> set R. plain e" and M: "\<forall>e \<in> set M. plain e"
  shows "filepath_Join [CHR ''/'' # join_slash R, CHR ''/'' # join_slash M] =
         CHR ''/'' # join_slash (R @ M)"
proof -
  have "filepath_Join [CHR ''/'' # join_slash R, CHR ''/'' # join_slash M] =
      path_Clean (CHR ''/'' # (join_slash R @ CHR ''/'' # CHR ''/'' # join_slash M))"
    by (simp add: filepath_Join_def)
  also have "\<dots> = CHR ''/'' # join_slash (clean_elems True []
      (split_slash (join_slash R) @ split_slash (CHR ''/'' # join_slash M)))"
    by (simp only: path_Clean_rooted split_slash_append)
  also have "clean_elems True []
      (split_slash (join_slash R) @ split_slash (CHR ''/'' # join_slash M)) =
      clean_elems True (rev R) (split_slash (CHR ''/'' # join_slash M))"
    by (simp add: clean_elems_append clean_split_join [OF R])
  also have "\<dots> = R @ M"
    by (simp add: clean_split_join [OF M])
  finally show ?thesis .
qed


text \<open>
  Whatever the file server opens lies under the directory the handler has chosen, and
  that directory lies under \<open>/playwright-results\<close> unless the uid is \<open>..\<close>.
\<close>

lemma StripPrefix_Open: "StripPrefix pre h u = Open f \<Longrightarrow> \<exists>u'. h u' = Open f"
  by (auto simp: StripPrefix_def http_NotFound_def Let_def split: if_splits)

lemma FileServer_Open:
  "FileServer root u = Open f \<Longrightarrow> \<exists>q. f = Dir_Open root (path_Clean (CHR ''/'' # q))"
proof -
  assume a: "FileServer root u = Open f"
  let ?upath = "if prefix ''/'' (Path u) then Path u else CHR ''/'' # Path u"
  from a have f: "f = Dir_Open root (path_Clean ?upath)"
    by (auto simp: FileServer_def Let_def split: if_splits)
  have "\<exists>q. ?upath = CHR ''/'' # q"
    by (auto simp: prefix_def)
  with f show ?thesis by auto
qed

lemma Dir_Open_rooted:
  assumes "\<forall>e \<in> set R. plain e"
  shows "\<exists>M. (\<forall>e \<in> set M. plain e) \<and>
           Dir_Open (CHR ''/'' # join_slash R) (path_Clean (CHR ''/'' # q)) =
             CHR ''/'' # join_slash (R @ M)"
proof -
  let ?M = "clean_elems True [] (split_slash (path_Clean (CHR ''/'' # q)))"
  have M: "\<forall>e \<in> set ?M. plain e" by (rule rooted_plain)
  have "Dir_Open (CHR ''/'' # join_slash R) (path_Clean (CHR ''/'' # q)) =
      filepath_Join [CHR ''/'' # join_slash R, CHR ''/'' # join_slash ?M]"
    by (simp add: Dir_Open_def path_Clean_rooted)
  also have "\<dots> = CHR ''/'' # join_slash (R @ ?M)"
    using assms M by (rule Join_rooted)
  finally show ?thesis using M by blast
qed

lemma pw_root:
  "filepath_Join [''/playwright-results'', uid] =
     CHR ''/'' # join_slash
       (clean_elems True [''playwright-results''] (split_slash uid))"
proof -
  have "filepath_Join [''/playwright-results'', uid] =
      path_Clean (CHR ''/'' # (''playwright-results'' @ CHR ''/'' # uid))"
    by (simp add: filepath_Join_def)
  also have "\<dots> = CHR ''/'' # join_slash
      (clean_elems True [] (split_slash ''playwright-results'' @ split_slash uid))"
    by (simp only: path_Clean_rooted split_slash_append)
  also have "split_slash ''playwright-results'' = [''playwright-results'']"
    by (rule split_slash_single) simp
  finally show ?thesis by simp
qed

lemma pw_root_plain:
  "\<forall>e \<in> set (clean_elems True [''playwright-results''] (split_slash uid)). plain e"
  by (rule clean_elems_plain) (auto simp: plain_def dest: split_slash_no_slash)

lemma pw_open_shaped:
  assumes "pw_handler u = Open f"
  shows "pw_shaped (Path u) \<and>
         (\<exists>u'. FileServer (filepath_Join [''/playwright-results'', pw_uid (Path u)]) u' = Open f)"
proof -
  have shaped: "pw_shaped (Path u)"
    using assms pw_unshaped_404 [of u] by (auto simp: http_NotFound_def)
  then have pre: "prefix ''/pw/'' (Path u)" and sl: "CHR ''/'' \<in> set (drop 4 (Path u))"
    by (simp_all add: pw_shaped_def)
  from pre have trim: "TrimPrefix (Path u) ''/pw/'' = drop 4 (Path u)"
    by (simp add: TrimPrefix_def eval_nat_numeral)
  from assms have "StripPrefix (''/pw/'' @ pw_uid (Path u) @ ''/'')
      (FileServer (filepath_Join [''/playwright-results'', pw_uid (Path u)])) u = Open f"
    using sl by (simp add: pw_handler_def trim SplitN2_sep pw_uid_def Let_def)
  then show ?thesis using shaped by (blast dest: StripPrefix_Open)
qed

lemma pw_open_under_root:
  assumes "pw_handler u = Open f"
  shows "under_dir (filepath_Join [''/playwright-results'', pw_uid (Path u)]) f"
proof -
  let ?R = "clean_elems True [''playwright-results''] (split_slash (pw_uid (Path u)))"
  have R: "\<forall>e \<in> set ?R. plain e" by (rule pw_root_plain)
  from pw_open_shaped [OF assms] obtain u' where
    "FileServer (filepath_Join [''/playwright-results'', pw_uid (Path u)]) u' = Open f"
    by blast
  then obtain q where
    "f = Dir_Open (CHR ''/'' # join_slash ?R) (path_Clean (CHR ''/'' # q))"
    by (auto simp: pw_root dest: FileServer_Open)
  with Dir_Open_rooted [OF R, of q] obtain M where
    M: "\<forall>e \<in> set M. plain e" and f: "f = CHR ''/'' # join_slash (?R @ M)"
    by auto
  from R M have "elems f = ?R @ M" unfolding f by (intro elems_rooted) auto
  moreover have "elems (filepath_Join [''/playwright-results'', pw_uid (Path u)]) = ?R"
    using R by (simp add: pw_root elems_rooted)
  ultimately show ?thesis by (simp add: under_dir_def)
qed

lemma pw_root_safe:
  assumes "CHR ''/'' \<notin> set uid" and "uid \<noteq> ''..''"
  shows "prefix [''playwright-results'']
           (clean_elems True [''playwright-results''] (split_slash uid))"
proof -
  from assms(1) have s: "split_slash uid = [uid]" by (rule split_slash_single)
  show ?thesis
  proof (cases "uid = [] \<or> uid = ''.''")
    case True
    then show ?thesis unfolding s by auto
  next
    case False
    with assms(2) have "clean_elems True [''playwright-results''] [uid] =
        [''playwright-results'', uid]"
      by simp
    then show ?thesis unfolding s by simp
  qed
qed


lemma elems_results: "elems ''/playwright-results'' = [''playwright-results'']"
proof -
  have "elems (CHR ''/'' # join_slash [''playwright-results'']) = [''playwright-results'']"
    by (rule elems_rooted) (simp add: plain_def)
  then show ?thesis by simp
qed

lemma pw_confined:
  assumes "pw_handler u = Open f" and "pw_uid (Path u) \<noteq> ''..''"
  shows "under_dir ''/playwright-results'' f"
proof -
  let ?uid = "pw_uid (Path u)"
  let ?R = "clean_elems True [''playwright-results''] (split_slash ?uid)"
  have "CHR ''/'' \<notin> set ?uid"
    by (auto simp: pw_uid_def dest: set_takeWhileD)
  then have a: "prefix [''playwright-results''] ?R"
    using assms(2) by (rule pw_root_safe)
  have "elems (filepath_Join [''/playwright-results'', ?uid]) = ?R"
    using pw_root_plain [of ?uid] by (simp only: pw_root elems_rooted)
  with pw_open_under_root [OF assms(1)] have b: "prefix ?R (elems f)"
    by (simp only: under_dir_def)
  from a b have "prefix [''playwright-results''] (elems f)"
    by (rule prefix_order.order_trans)
  then show ?thesis by (simp only: under_dir_def elems_results)
qed

text \<open>
  C6. The handler of \<open>/pw/\<close> keeps a request inside the directory it has chosen, but it
  chooses the directory with \<open>filepath.Join\<close>, which resolves a uid of \<open>..\<close>: for the
  path \<open>/pw/../etc/passwd\<close> the directory is \<open>/\<close> and the file opened is \<open>/etc/passwd\<close>,
  outside \<open>/playwright-results\<close>.
\<close>

theorem uid_dotdot_escapes:
  "pw_handler \<lparr>Path = ''/pw/../etc/passwd'', RawPath = []\<rparr> = Open ''/etc/passwd'' \<and>
   pw_uid ''/pw/../etc/passwd'' = ''..'' \<and>
   \<not> under_dir ''/playwright-results/..'' ''/etc/passwd'' \<and>
   \<not> under_dir ''/playwright-results'' ''/etc/passwd''"
  by code_simp

end
